theory Spec2Isabelle
  imports Main "HOL-Library.Sublist" "HOL-Library.AList" "HOL-Library.Char_ord"
    "HOL-Library.List_Lexorder"
begin

section \<open>Python values as loaded by \<open>yaml.safe_load\<close>\<close>

text \<open>
  \<open>yaml.safe_load\<close> returns \<open>None\<close>, a bool, an int, a str, a list or a dict.
  A dict keeps its insertion order, so it is an association list; its keys are
  hashable, that is, scalars. Floats, timestamps and binary scalars are left out
  of the model.

  A list or a dict is an object, and one object can stand at several places of
  a document: YAML names an object with an anchor \<open>&i\<close> and puts it at other
  places with the alias \<open>*i\<close>, and \<open>yaml.safe_load\<close> gives all these places the
  same object. A loaded value is written here as the tree of everything reachable
  from it. A node that stands for an anchored object carries \<open>Some i\<close>; all nodes
  of one object carry the same anchor and have the same content. A node with
  \<open>None\<close> is an object without anchor: it stands at this one place of its parent
  object. A document that contains itself is left out of the model.
\<close>

datatype scalar = SNull | SBool bool | SInt int | SStr string

datatype yaml =
  YScalar scalar
  | YSeqAt "nat option" "yaml list"
  | YMapAt "nat option" "(scalar \<times> yaml) list"

type_synonym dict = "(scalar \<times> yaml) list"

text \<open>A list and a dict without anchor.\<close>

abbreviation YSeq :: "yaml list \<Rightarrow> yaml" where "YSeq xs \<equiv> YSeqAt None xs"
abbreviation YMap :: "dict \<Rightarrow> yaml" where "YMap d \<equiv> YMapAt None d"

abbreviation YNull :: yaml where "YNull \<equiv> YScalar SNull"
abbreviation YStr :: "string \<Rightarrow> yaml" where "YStr s \<equiv> YScalar (SStr s)"
abbreviation YInt :: "int \<Rightarrow> yaml" where "YInt i \<equiv> YScalar (SInt i)"
abbreviation YBool :: "bool \<Rightarrow> yaml" where "YBool b \<equiv> YScalar (SBool b)"

text \<open>The exceptions the scripts can raise on the values they handle.\<close>

datatype py_error = TypeError | AttributeError | KeyError | YAMLError | OSError

type_synonym 'a result = "py_error + 'a"

text \<open>\<open>k in d\<close> and \<open>d.get(k)\<close> for a str key \<open>k\<close> and a dict \<open>d\<close>.\<close>

definition has_key :: "string \<Rightarrow> dict \<Rightarrow> bool" where
  "has_key k d = (map_of d (SStr k) \<noteq> None)"

definition dict_get :: "string \<Rightarrow> dict \<Rightarrow> yaml option" where
  "dict_get k d = map_of d (SStr k)"

text \<open>
  \<open>k in v\<close> for a str \<open>k\<close> and any loaded value \<open>v\<close>: key membership in a dict,
  element membership in a list, the substring test in a str, and a TypeError on
  \<open>None\<close>, a bool or an int (not iterable).
\<close>

fun py_in :: "string \<Rightarrow> yaml \<Rightarrow> bool result" where
  "py_in k (YMapAt l d) = Inr (has_key k d)"
| "py_in k (YSeqAt l xs) = Inr (YStr k \<in> set xs)"
| "py_in k (YScalar (SStr s)) = Inr (sublist k s)"
| "py_in k (YScalar _) = Inl TypeError"

text \<open>
  \<open>v[k]\<close> for a str \<open>k\<close>: the value of a dict (KeyError when absent); a list or
  a str takes integer indices only, a scalar is not subscriptable (TypeError).
\<close>

fun py_getitem :: "yaml \<Rightarrow> string \<Rightarrow> yaml result" where
  "py_getitem (YMapAt l d) k = (case dict_get k d of None \<Rightarrow> Inl KeyError | Some v \<Rightarrow> Inr v)"
| "py_getitem _ k = Inl TypeError"

text \<open>\<open>v.get(k)\<close>: only a dict has the method; an absent key gives \<open>None\<close>.\<close>

fun py_get :: "yaml \<Rightarrow> string \<Rightarrow> yaml result" where
  "py_get (YMapAt l d) k = Inr (case dict_get k d of None \<Rightarrow> YNull | Some v \<Rightarrow> v)"
| "py_get _ k = Inl AttributeError"

fun is_str :: "yaml \<Rightarrow> bool" where
  "is_str (YScalar (SStr s)) = True"
| "is_str _ = False"

fun is_list :: "yaml \<Rightarrow> bool" where
  "is_list (YSeqAt l xs) = True"
| "is_list _ = False"

fun is_dict :: "yaml \<Rightarrow> bool" where
  "is_dict (YMapAt l d) = True"
| "is_dict _ = False"

fun key_is_str :: "scalar \<Rightarrow> bool" where
  "key_is_str (SStr s) = True"
| "key_is_str _ = False"

fun key_str :: "scalar \<Rightarrow> string" where
  "key_str (SStr s) = s"
| "key_str _ = []"

section \<open>Console output\<close>

definition ESC :: char where "ESC = char_of (27::nat)"
definition GREEN :: string where "GREEN = ESC # ''[0;32m''"
definition CYAN :: string where "CYAN = ESC # ''[0;36m''"
definition YELLOW :: string where "YELLOW = ESC # ''[0;33m''"
definition RED :: string where "RED = ESC # ''[0;31m''"
definition RESET :: string where "RESET = ESC # ''[0m''"

text \<open>Each function gives the line it prints; \<open>log\<close> has the keyword \<open>success\<close>.\<close>

definition log :: "string \<Rightarrow> bool \<Rightarrow> string" where
  "log msg success = (if success then GREEN @ ''[OK] '' else CYAN @ ''[..] '') @ msg @ RESET"

definition warn :: "string \<Rightarrow> string" where
  "warn msg = YELLOW @ ''WARNING: '' @ msg @ RESET"

definition error :: "string \<Rightarrow> string" where
  "error msg = RED @ ''ERROR: '' @ msg @ RESET"

text \<open>A name between single quotes, as the messages show a field.\<close>

definition quoted :: "string \<Rightarrow> string" where
  "quoted s = (let q = char_of (39::nat) in q # s @ [q])"

text \<open>\<open>sep.join(xs)\<close> on a list of str.\<close>

fun join :: "string \<Rightarrow> string list \<Rightarrow> string" where
  "join sep [] = []"
| "join sep [x] = x"
| "join sep (x # y # ys) = x @ sep @ join sep (y # ys)"

section \<open>The validators of initialize.py\<close>

text \<open>
  A validator takes the loaded dict and the file name; it gives the lines it
  prints and the bool it returns, or the exception it raises. No validator
  prints before the point where it can raise.
\<close>

type_synonym verdict = "(string list \<times> bool) result"

definition validate_compose :: "dict \<Rightarrow> string \<Rightarrow> verdict" where
  "validate_compose data filename =
     (if \<not> has_key ''services'' data
      then Inr ([error (filename @ '': Missing services.devcontainer'')], False)
      else case py_in ''devcontainer''
                  (case dict_get ''services'' data of None \<Rightarrow> YMap [] | Some v \<Rightarrow> v) of
             Inl e \<Rightarrow> Inl e
           | Inr present \<Rightarrow>
               if \<not> present
               then Inr ([error (filename @ '': Missing services.devcontainer'')], False)
               else Inr ([], True))"

text \<open>
  \<open>set(d.keys()) - allowed\<close>, then \<open>', '.join(sorted(unknown))\<close>: the keys of
  a dict are distinct, sorting a set that mixes str with other keys raises
  TypeError, and so does joining a key that is not a str.
\<close>

definition unknown_keys :: "dict \<Rightarrow> string list \<Rightarrow> scalar list" where
  "unknown_keys d allowed = filter (\<lambda>k. k \<notin> set (map SStr allowed)) (remdups (map fst d))"

definition join_sorted :: "scalar list \<Rightarrow> string result" where
  "join_sorted ks =
     (if list_all key_is_str ks then Inr (join '', '' (sort (map key_str ks)))
      else Inl TypeError)"

definition compose_allowed :: "string list" where
  "compose_allowed =
     [''environment'', ''volumes'', ''devices'', ''ports'', ''cap_add'', ''extra_hosts'']"

definition validate_compose_custom :: "dict \<Rightarrow> string \<Rightarrow> verdict" where
  "validate_compose_custom data filename =
     (case validate_compose data filename of
        Inl e \<Rightarrow> Inl e
      | Inr (out, ok) \<Rightarrow>
          if \<not> ok then Inr (out, False)
          else case py_getitem (YMap data) ''services'' of
            Inl e \<Rightarrow> Inl e
          | Inr services \<Rightarrow>
             (case py_getitem services ''devcontainer'' of
                Inl e \<Rightarrow> Inl e
              | Inr (YMapAt l dc) \<Rightarrow>
                  (let unknown = unknown_keys dc compose_allowed in
                   if unknown \<noteq> []
                   then case join_sorted unknown of
                          Inl e \<Rightarrow> Inl e
                        | Inr s \<Rightarrow> Inr (out @ [warn (filename @ '': Unknown keys: '' @ s)], True)
                   else Inr (out, True))
              | Inr _ \<Rightarrow> Inl AttributeError))"

text \<open>
  The loop over \<open>("image_name", "image_tag")\<close> returns at the first field that
  is absent or not a str.
\<close>

fun check_fields :: "dict \<Rightarrow> string \<Rightarrow> string list \<Rightarrow> string option" where
  "check_fields data filename [] = None"
| "check_fields data filename (field # fields) =
     (case dict_get field data of
        None \<Rightarrow> Some (error (filename @ '': Missing or invalid '' @ quoted field))
      | Some v \<Rightarrow>
          if \<not> is_str v
          then Some (error (filename @ '': Missing or invalid '' @ quoted field))
          else check_fields data filename fields)"

definition validate_packages :: "dict \<Rightarrow> string \<Rightarrow> verdict" where
  "validate_packages data filename =
     (case check_fields data filename [''image_name'', ''image_tag''] of
        Some line \<Rightarrow> Inr ([line], False)
      | None \<Rightarrow>
          if \<not> has_key ''base'' data
          then Inr ([error (filename @ '': Missing or invalid '' @ quoted ''base.packages'')],
                 False)
          else case py_get (case dict_get ''base'' data of None \<Rightarrow> YMap [] | Some v \<Rightarrow> v)
                      ''packages'' of
                 Inl e \<Rightarrow> Inl e
               | Inr v \<Rightarrow>
                   if \<not> is_list v
                   then Inr ([error (filename @ '': Missing or invalid ''
                               @ quoted ''base.packages'')], False)
                   else Inr ([], True))"

definition packages_allowed :: "string list" where
  "packages_allowed = [''base'', ''devenv'']"

definition validate_packages_custom :: "dict \<Rightarrow> string \<Rightarrow> verdict" where
  "validate_packages_custom data filename =
     (let unknown = unknown_keys data packages_allowed in
      if unknown \<noteq> []
      then case join_sorted unknown of
             Inl e \<Rightarrow> Inl e
           | Inr s \<Rightarrow> Inr ([warn (filename @ '': Unknown sections: '' @ s)], True)
      else Inr ([], True))"

section \<open>The merge of the package documents\<close>

text \<open>
  What \<open>yaml.safe_load\<close> does on the file at a path: it gives a value, or raises
  YAMLError with a message; \<open>Unreadable\<close> is a file that \<open>open\<close> refuses.
\<close>

datatype yaml_load = Parsed yaml | Invalid string | Unreadable

fun load_yaml :: "yaml_load \<Rightarrow> yaml result" where
  "load_yaml (Parsed v) = Inr v"
| "load_yaml (Invalid msg) = Inl YAMLError"
| "load_yaml Unreadable = Inl OSError"

text \<open>Truth value of a loaded value, as \<open>yaml.safe_load(f) or {}\<close> tests it.\<close>

fun py_truthy :: "yaml \<Rightarrow> bool" where
  "py_truthy (YScalar SNull) = False"
| "py_truthy (YScalar (SBool b)) = b"
| "py_truthy (YScalar (SInt i)) = (i \<noteq> 0)"
| "py_truthy (YScalar (SStr s)) = (s \<noteq> [])"
| "py_truthy (YSeqAt l xs) = (xs \<noteq> [])"
| "py_truthy (YMapAt l d) = (d \<noteq> [])"

text \<open>
  The elements \<open>list.extend(v)\<close> appends: those of a list, the keys of a dict,
  the characters of a str; any other scalar is not iterable.
\<close>

fun py_iter :: "yaml \<Rightarrow> yaml list result" where
  "py_iter (YSeqAt l xs) = Inr xs"
| "py_iter (YMapAt l d) = Inr (map (\<lambda>kv. YScalar (fst kv)) d)"
| "py_iter (YScalar (SStr s)) = Inr (map (\<lambda>c. YStr [c]) s)"
| "py_iter (YScalar _) = Inl TypeError"

text \<open>
  \<open>c.setdefault(k, dflt)\<close>: the container after the call and the value the call
  returns. A new key goes to the end of the dict; only a dict has the method.
\<close>

fun py_setdefault :: "yaml \<Rightarrow> string \<Rightarrow> yaml \<Rightarrow> (yaml \<times> yaml) result" where
  "py_setdefault (YMapAt l d) k dflt =
     (case dict_get k d of
        Some v \<Rightarrow> Inr (YMapAt l d, v)
      | None \<Rightarrow> Inr (YMapAt l (AList.update (SStr k) dflt d), dflt))"
| "py_setdefault _ k dflt = Inl AttributeError"

text \<open>\<open>xs.extend(ys)\<close>: only a list has the method.\<close>

fun py_extend :: "yaml \<Rightarrow> yaml list \<Rightarrow> yaml result" where
  "py_extend (YSeqAt l xs) ys = Inr (YSeqAt l (xs @ ys))"
| "py_extend _ ys = Inl AttributeError"

text \<open>
  Objects changed in place. \<open>anchor_of\<close> is the anchor of a node. When the
  object with anchor \<open>i\<close> changes, every node of that object changes:
  \<open>replace_object i new v\<close> puts the node \<open>new\<close> at every node of \<open>v\<close> that
  carries \<open>Some i\<close>.
\<close>

fun anchor_of :: "yaml \<Rightarrow> nat option" where
  "anchor_of (YScalar s) = None"
| "anchor_of (YSeqAt l xs) = l"
| "anchor_of (YMapAt l d) = l"

primrec replace_object :: "nat \<Rightarrow> yaml \<Rightarrow> yaml \<Rightarrow> yaml" where
  "replace_object i new (YScalar s) = YScalar s"
| "replace_object i new (YSeqAt l xs) =
     (if l = Some i then new else YSeqAt l (map (replace_object i new) xs))"
| "replace_object i new (YMapAt l d) =
     (if l = Some i then new else YMapAt l (map (map_prod id (replace_object i new)) d))"

text \<open>
  The value of \<open>parent\<close> after the object bound to \<open>key\<close> in the dict \<open>parent\<close>
  has changed in place and is now \<open>new\<close>. An anchored object changes at all its
  places; an object without anchor stands at this key only.
\<close>

definition changed_at :: "string \<Rightarrow> yaml \<Rightarrow> yaml \<Rightarrow> yaml" where
  "changed_at key new parent =
     (case anchor_of new of
        Some i \<Rightarrow> replace_object i new parent
      | None \<Rightarrow>
         (case parent of
            YMapAt l d \<Rightarrow> YMapAt l (AList.update (SStr key) new d)
          | _ \<Rightarrow> parent))"

text \<open>
  Two documents are loaded apart, so an object of one is never an object of the
  other, whatever the anchors are called in the two files. \<open>rename_apart k\<close>
  adds \<open>k\<close> to every anchor of a value; with \<open>k\<close> above the greatest anchor of
  another value, the two share no anchor.
\<close>

primrec greatest_anchor :: "yaml \<Rightarrow> nat" where
  "greatest_anchor (YScalar s) = 0"
| "greatest_anchor (YSeqAt l xs) =
     max (case l of None \<Rightarrow> 0 | Some i \<Rightarrow> i) (fold max (map greatest_anchor xs) 0)"
| "greatest_anchor (YMapAt l d) =
     max (case l of None \<Rightarrow> 0 | Some i \<Rightarrow> i)
       (fold max (map snd (map (map_prod id greatest_anchor) d)) 0)"

primrec rename_apart :: "nat \<Rightarrow> yaml \<Rightarrow> yaml" where
  "rename_apart k (YScalar s) = YScalar s"
| "rename_apart k (YSeqAt l xs) = YSeqAt (map_option (\<lambda>i. i + k) l) (map (rename_apart k) xs)"
| "rename_apart k (YMapAt l d) =
     YMapAt (map_option (\<lambda>i. i + k) l) (map (map_prod id (rename_apart k)) d)"

text \<open>
  The two statements under \<open>if field in custom[section]\<close>, for one section and
  one field:
  \<^verbatim>\<open>merged.setdefault(section, {}).setdefault(field, [])\<close> and
  \<^verbatim>\<open>merged[section][field].extend(custom[section][field])\<close>.
  The first may add the key \<open>section\<close> to the dict \<open>merged\<close> and the key \<open>field\<close>
  to the section dict; the second changes the list object in place. Each
  change shows at every place of the changed object: a list with an anchor is
  replaced throughout \<open>merged\<close>; a list without anchor stands in its section
  dict only, and the section dict is then the changed object. The method
  \<open>extend\<close> is looked up before its argument is evaluated, and it iterates the
  argument last.
\<close>

definition extend_field :: "string \<Rightarrow> string \<Rightarrow> yaml \<Rightarrow> yaml \<Rightarrow> yaml result" where
  "extend_field section field custom_section merged =
     (case py_setdefault merged section (YMap []) of
        Inl e \<Rightarrow> Inl e
      | Inr (merged1, sec) \<Rightarrow>
         (case py_setdefault sec field (YSeq []) of
            Inl e \<Rightarrow> Inl e
          | Inr (sec1, lst) \<Rightarrow>
             (let merged2 = changed_at section sec1 merged1 in
              if \<not> is_list lst then Inl AttributeError
              else case py_getitem custom_section field of
                Inl e \<Rightarrow> Inl e
              | Inr arg \<Rightarrow>
                 (case py_iter arg of
                    Inl e \<Rightarrow> Inl e
                  | Inr ys \<Rightarrow>
                     (case py_extend lst ys of
                        Inl e \<Rightarrow> Inl e
                      | Inr lst1 \<Rightarrow>
                         (case anchor_of lst1 of
                            Some j \<Rightarrow> Inr (replace_object j lst1 merged2)
                          | None \<Rightarrow>
                              Inr (changed_at section (changed_at field lst1 sec1) merged2)))))))"

definition merge_field :: "string \<Rightarrow> string \<Rightarrow> yaml \<Rightarrow> yaml \<Rightarrow> yaml result" where
  "merge_field section field custom_section merged =
     (case py_in field custom_section of
        Inl e \<Rightarrow> Inl e
      | Inr present \<Rightarrow>
          if present then extend_field section field custom_section merged else Inr merged)"

text \<open>One of the blocks \<open>if "base" in custom\<close> and \<open>if "devenv" in custom\<close>.\<close>

definition merge_section :: "string \<Rightarrow> yaml \<Rightarrow> yaml \<Rightarrow> yaml result" where
  "merge_section section custom merged =
     (case py_in section custom of
        Inl e \<Rightarrow> Inl e
      | Inr present \<Rightarrow>
          if \<not> present then Inr merged
          else case py_getitem custom section of
            Inl e \<Rightarrow> Inl e
          | Inr custom_section \<Rightarrow>
             (case merge_field section ''packages'' custom_section merged of
                Inl e \<Rightarrow> Inl e
              | Inr merged1 \<Rightarrow> merge_field section ''python_tools'' custom_section merged1))"

text \<open>
  The document \<open>merge_packages\<close> dumps, from the default file and the custom
  file (\<open>None\<close> when it does not exist). The objects of the custom document are
  renamed apart from those of the default document.
\<close>

definition merge_documents :: "yaml_load \<Rightarrow> yaml_load option \<Rightarrow> yaml result" where
  "merge_documents default_file custom_file =
     (case load_yaml default_file of
        Inl e \<Rightarrow> Inl e
      | Inr merged \<Rightarrow>
         (case custom_file of
            None \<Rightarrow> Inr merged
          | Some cf \<Rightarrow>
             (case load_yaml cf of
                Inl e \<Rightarrow> Inl e
              | Inr loaded \<Rightarrow>
                 (let custom = rename_apart (Suc (greatest_anchor merged))
                                 (if py_truthy loaded then loaded else YMap []) in
                  case merge_section ''base'' custom merged of
                    Inl e \<Rightarrow> Inl e
                  | Inr merged1 \<Rightarrow> merge_section ''devenv'' custom merged1))))"

text \<open>The value of a document at \<open>section.field\<close>, when both levels are dicts.\<close>

definition at_path :: "string \<Rightarrow> string \<Rightarrow> yaml \<Rightarrow> yaml option" where
  "at_path section field doc =
     (case doc of
        YMapAt l d \<Rightarrow>
          (case dict_get section d of
             Some (YMapAt ls sd) \<Rightarrow> dict_get field sd
           | _ \<Rightarrow> None)
      | _ \<Rightarrow> None)"

definition top_level :: "string \<Rightarrow> yaml \<Rightarrow> yaml option" where
  "top_level k doc = (case doc of YMapAt l d \<Rightarrow> dict_get k d | _ \<Rightarrow> None)"

section \<open>The host and the file system\<close>

text \<open>Decimal digits of an int, as an f-string shows it.\<close>

fun str_of_nat :: "nat \<Rightarrow> string" where
  "str_of_nat n =
     (if n < 10 then [char_of (48 + n)]
      else str_of_nat (n div 10) @ [char_of (48 + n mod 10)])"

definition str_of_int :: "int \<Rightarrow> string" where
  "str_of_int i = (if i < 0 then CHR ''-'' # str_of_nat (nat (- i)) else str_of_nat (nat i))"

record SystemInfo =
  ptrace_scope :: "int option"
  disk_available_gb :: "int option"
  memory_total_gb :: int
  memory_available_gb :: int
  docker_available :: bool
  docker_running :: bool
  docker_version :: "string option"
  git_repo_root :: "string option"

text \<open>
  What the process reads from its host and never changes: the result of
  \<open>get_system_info()\<close>, \<open>os.environ\<close>, whether \<open>platform.system()\<close> is
  Windows, \<open>os.getuid()\<close> and \<open>os.getgid()\<close>, \<open>Path.home().as_posix()\<close>; and
  two library functions taken as given: \<open>str\<close> of a list or dict, and
  \<open>yaml.safe_load\<close> on the text of a file.
\<close>

record host =
  sysinfo :: SystemInfo
  environ :: "string \<rightharpoonup> string"
  on_windows :: bool
  os_uid :: int
  os_gid :: int
  home_dir :: string
  str_of_container :: "yaml \<Rightarrow> string"
  safe_load :: "string \<Rightarrow> yaml_load"

text \<open>
  A path is its directory and its name; \<open>str(path)\<close> joins them. A file is
  kept as what \<open>yaml.safe_load\<close> does on it, or as its text when the process
  wrote it with \<open>write_text\<close>. The dump of a document loads as that document,
  and so do the two fixed texts of the scaffold writers.
\<close>

type_synonym path = "string \<times> string"

datatype file_content = Yaml yaml_load | Text string

fun load_file :: "host \<Rightarrow> file_content \<Rightarrow> yaml_load" where
  "load_file h (Yaml l) = l"
| "load_file h (Text txt) = safe_load h txt"

definition path_str :: "path \<Rightarrow> string" where
  "path_str p = fst p @ ''/'' @ snd p"

record world =
  is_dir :: "string \<Rightarrow> bool"
  files :: "path \<rightharpoonup> file_content"
  stdout :: "string list"

definition print :: "string \<Rightarrow> world \<Rightarrow> world" where
  "print line w = w\<lparr>stdout := stdout w @ [line]\<rparr>"

definition print_all :: "string list \<Rightarrow> world \<Rightarrow> world" where
  "print_all ls w = w\<lparr>stdout := stdout w @ ls\<rparr>"

definition path_exists :: "path \<Rightarrow> world \<Rightarrow> bool" where
  "path_exists p w = (files w p \<noteq> None)"

definition get_uid_gid :: "host \<Rightarrow> int \<times> int" where
  "get_uid_gid h = (if on_windows h then (1000, 1000) else (os_uid h, os_gid h))"

definition get_git_root :: "host \<Rightarrow> string option" where
  "get_git_root h = git_repo_root (sysinfo h)"

section \<open>The host validator\<close>

definition ptrace_levels :: "int \<Rightarrow> string" where
  "ptrace_levels n =
     (if n = 0 then ''unrestricted'' else if n = 1 then ''restricted''
      else if n = 2 then ''admin-only'' else if n = 3 then ''disabled'' else ''unknown'')"

text \<open>The lines \<open>validate_host\<close> prints after its first, and \<open>not failed\<close>.\<close>

definition host_ptrace :: "SystemInfo \<Rightarrow> string list \<times> bool" where
  "host_ptrace info =
     (case ptrace_scope info of
        None \<Rightarrow> ([], False)
      | Some n \<Rightarrow>
         (let line = ''ptrace_scope: '' @ str_of_int n @ '' ('' @ ptrace_levels n @ '')'' in
          if n = 0 then ([log line True], False)
          else if n = 3 then ([error line], True)
          else ([warn line], False)))"

definition host_docker :: "SystemInfo \<Rightarrow> string list \<times> bool" where
  "host_docker info =
     (if \<not> docker_available info then ([error ''Docker not found''], True)
      else if \<not> docker_running info then ([error ''Docker daemon not running''], True)
      else ([log (''Docker: '' @
                  (case docker_version info of
                     None \<Rightarrow> ''available''
                   | Some v \<Rightarrow> if v = [] then ''available'' else v)) True], False))"

definition host_resources :: "SystemInfo \<Rightarrow> string list" where
  "host_resources info =
     (case disk_available_gb info of
        None \<Rightarrow> []
      | Some d \<Rightarrow>
          if d < 10 then [warn (''Disk: '' @ str_of_int d @ ''GB available (low)'')]
          else [log (''Disk: '' @ str_of_int d @ ''GB available'') True])
     @ (if memory_available_gb info < 2
        then [warn (''Memory: '' @ str_of_int (memory_available_gb info) @ ''GB available (low)'')]
        else [log (''Memory: '' @ str_of_int (memory_available_gb info) @ ''/''
                     @ str_of_int (memory_total_gb info) @ ''GB'') True])"

definition host_git :: "SystemInfo \<Rightarrow> string list" where
  "host_git info =
     (case git_repo_root info of
        Some r \<Rightarrow> [log (''Git: '' @ r) True]
      | None \<Rightarrow> [warn ''Git repository not found''])"

definition validate_host :: "host \<Rightarrow> world \<Rightarrow> bool \<times> world" where
  "validate_host h w =
     (let info = sysinfo h;
          (l1, failed1) = host_ptrace info;
          (l2, failed2) = host_docker info;
          failed = (failed1 \<or> failed2)
      in (\<not> failed,
          print_all ([log ''Validating host system...'' False] @ l1 @ l2 @ host_resources info
                     @ host_git info) w))"

section \<open>Loading and validating a file\<close>

text \<open>
  \<open>validate_yaml\<close> catches \<open>yaml.YAMLError\<close> only: a file that cannot be opened
  and an exception of the validator leave the function.
\<close>

definition validate_yaml ::
  "host \<Rightarrow> path \<Rightarrow> (dict \<Rightarrow> string \<Rightarrow> verdict) \<Rightarrow> world \<Rightarrow> bool result \<times> world" where
  "validate_yaml h p validator w =
     (let w1 = print (log (''Validating '' @ snd p @ ''...'') False) w in
      case files w1 p of
        None \<Rightarrow> (Inr False, print (error (''File not found: '' @ path_str p)) w1)
      | Some f \<Rightarrow>
         (case load_file h f of
            Unreadable \<Rightarrow> (Inl OSError, w1)
          | Invalid msg \<Rightarrow> (Inr False, print (error (snd p @ '': YAML error: '' @ msg)) w1)
          | Parsed (YMapAt l data) \<Rightarrow>
             (case validator data (snd p) of
                Inl e \<Rightarrow> (Inl e, w1)
              | Inr (out, ok) \<Rightarrow>
                  if ok then (Inr True, print (log (snd p @ '': Valid'') True) (print_all out w1))
                  else (Inr False, print_all out w1))
          | Parsed _ \<Rightarrow>
              (Inr False, print (error (snd p @ '': Invalid YAML (expected dict)'')) w1)))"

section \<open>The scaffold writers\<close>

text \<open>
  The documents that the two fixed texts denote: \<open>services.devcontainer\<close> with
  three empty lists, and \<open>base\<close> and \<open>devenv\<close> with an empty \<open>packages\<close> each.
\<close>

definition compose_custom_content :: yaml where
  "compose_custom_content =
     YMap [(SStr ''services'', YMap [(SStr ''devcontainer'',
       YMap [(SStr ''environment'', YSeq []), (SStr ''volumes'', YSeq []),
             (SStr ''devices'', YSeq [])])])]"

definition packages_custom_content :: yaml where
  "packages_custom_content =
     YMap [(SStr ''base'', YMap [(SStr ''packages'', YSeq [])]),
           (SStr ''devenv'', YMap [(SStr ''packages'', YSeq [])])]"

definition write_yaml :: "path \<Rightarrow> yaml \<Rightarrow> world \<Rightarrow> world" where
  "write_yaml p doc w = w\<lparr>files := (files w)(p \<mapsto> Yaml (Parsed doc))\<rparr>"

definition write_text :: "path \<Rightarrow> string \<Rightarrow> world \<Rightarrow> world" where
  "write_text p txt w = w\<lparr>files := (files w)(p \<mapsto> Text txt)\<rparr>"

definition create_compose_custom :: "path \<Rightarrow> world \<Rightarrow> world" where
  "create_compose_custom p w =
     print (log (''Created '' @ snd p) True)
       (write_yaml p compose_custom_content (print (log (''Creating '' @ snd p @ ''...'') False) w))"

definition create_packages_custom :: "path \<Rightarrow> world \<Rightarrow> world" where
  "create_packages_custom p w =
     print (log (''Created '' @ snd p) True)
       (write_yaml p packages_custom_content (print (log (''Creating '' @ snd p @ ''...'') False) w))"

section \<open>The package merger on files\<close>

text \<open>
  \<open>merge_packages\<close> loads the default file, loads the custom file when it exists,
  and dumps the merged document to the output path. Nothing is written when a
  load or the merge raises.
\<close>

definition merge_packages :: "host \<Rightarrow> path \<Rightarrow> path \<Rightarrow> path \<Rightarrow> world \<Rightarrow> unit result \<times> world" where
  "merge_packages h default_path custom_path output_path w =
     (let w1 = print (log ''Merging package configurations...'' False) w in
      case files w1 default_path of
        None \<Rightarrow> (Inl OSError, w1)
      | Some df \<Rightarrow>
         (case merge_documents (load_file h df) (map_option (load_file h) (files w1 custom_path)) of
            Inl e \<Rightarrow> (Inl e, w1)
          | Inr merged \<Rightarrow>
              (Inr (), print (log (''Created '' @ snd output_path) True)
                         (write_yaml output_path merged w1))))"

section \<open>The environment emitter\<close>

text \<open>
  The names of the loop \<open>for var in (...): for v in (var, var.upper())\<close>, in the
  order the loop visits them.
\<close>

definition proxy_names :: "string list" where
  "proxy_names =
     [''http_proxy'', ''HTTP_PROXY'', ''https_proxy'', ''HTTPS_PROXY'',
      ''all_proxy'', ''ALL_PROXY'', ''no_proxy'', ''NO_PROXY'']"

text \<open>\<open>if val := os.environ.get(v)\<close>: the variable is set and not empty.\<close>

definition proxy_line :: "host \<Rightarrow> string \<Rightarrow> string list" where
  "proxy_line h v =
     (case environ h v of
        None \<Rightarrow> []
      | Some val \<Rightarrow> if val \<noteq> [] then [v @ ''='' @ val] else [])"

definition proxy_lines :: "host \<Rightarrow> string list" where
  "proxy_lines h = concat (map (proxy_line h) proxy_names)"

definition environ_get :: "host \<Rightarrow> string \<Rightarrow> string \<Rightarrow> string" where
  "environ_get h k dflt = (case environ h k of None \<Rightarrow> dflt | Some v \<Rightarrow> v)"

definition user_name :: "host \<Rightarrow> string" where
  "user_name h = environ_get h ''USER'' (environ_get h ''USERNAME'' ''developer'')"

text \<open>A loaded value inside an f-string.\<close>

fun format_value :: "host \<Rightarrow> yaml \<Rightarrow> string" where
  "format_value h (YScalar (SStr s)) = s"
| "format_value h (YScalar SNull) = ''None''"
| "format_value h (YScalar (SBool b)) = (if b then ''True'' else ''False'')"
| "format_value h (YScalar (SInt i)) = str_of_int i"
| "format_value h v = str_of_container h v"

text \<open>\<open>v.get(k, dflt)\<close>: only a dict has the method.\<close>

fun py_get_default :: "yaml \<Rightarrow> string \<Rightarrow> yaml \<Rightarrow> yaml result" where
  "py_get_default (YMapAt l d) k dflt = Inr (case dict_get k d of None \<Rightarrow> dflt | Some v \<Rightarrow> v)"
| "py_get_default _ k dflt = Inl AttributeError"

text \<open>
  The body of the \<open>try\<close>: open the merged file, load it, read the two fields
  with their defaults.
\<close>

definition read_image_config :: "host \<Rightarrow> file_content option \<Rightarrow> (yaml \<times> yaml) result" where
  "read_image_config h f =
     (case f of
        None \<Rightarrow> Inl OSError
      | Some fc \<Rightarrow>
         (case load_yaml (load_file h fc) of
            Inl e \<Rightarrow> Inl e
          | Inr pkg \<Rightarrow>
             (case py_get_default pkg ''image_name'' (YStr ''ubuntu'') of
                Inl e \<Rightarrow> Inl e
              | Inr image_name \<Rightarrow>
                 (case py_get_default pkg ''image_tag'' (YStr ''24.04'') of
                    Inl e \<Rightarrow> Inl e
                  | Inr image_tag \<Rightarrow> Inr (image_name, image_tag)))))"

text \<open>The \<open>try\<close> with its \<open>except Exception\<close>.\<close>

definition image_config :: "host \<Rightarrow> file_content option \<Rightarrow> yaml \<times> yaml" where
  "image_config h f =
     (case read_image_config h f of
        Inl e \<Rightarrow> (YStr ''ubuntu'', YStr ''24.04'')
      | Inr names \<Rightarrow> names)"

definition env_lines :: "host \<Rightarrow> file_content option \<Rightarrow> string \<Rightarrow> string list" where
  "env_lines h packages_file sfx =
     (let proxies = proxy_lines h;
          lines1 = (if proxies \<noteq> [] then proxies @ [[]] else proxies);
          username = user_name h;
          (uid, gid) = get_uid_gid h;
          lines2 = lines1 @
            [''SHELL='' @ environ_get h ''SHELL'' ''/bin/bash'',
             ''USER='' @ username,
             ''USER_UID='' @ str_of_int uid,
             ''USER_GID='' @ str_of_int gid];
          (image_name, image_tag) = image_config h packages_file;
          lines3 = lines2 @
            [[],
             ''IMAGE_NAME='' @ format_value h image_name,
             ''IMAGE_TAG='' @ format_value h image_tag,
             [],
             ''BUILD_TARGET=devenv''];
          suffix_part = (if sfx \<noteq> [] then ''-'' @ sfx else []);
          lines4 = lines3 @
            [[],
             ''SERVICE_PREPARE='' @ username @ ''-devcontainer-prepare'' @ suffix_part,
             ''SERVICE_MAIN='' @ username @ ''-devcontainer'' @ suffix_part,
             [],
             ''VOLUME_LOCAL_SHARE='' @ username @ ''-devcontainer-local-share'' @ suffix_part,
             ''VOLUME_CONFIG='' @ username @ ''-devcontainer-config'' @ suffix_part,
             ''VOLUME_CACHE='' @ username @ ''-devcontainer-cache'' @ suffix_part,
             ''VOLUME_VSCODE_EXT='' @ username @ ''-vscode-extensions'' @ suffix_part,
             ''VOLUME_VSCODE_EXT_INSIDERS='' @ username @ ''-vscode-extensions-insiders''
                @ suffix_part,
             [],
             ''HOME='' @ home_dir h]
      in case get_git_root h of
           Some git_root \<Rightarrow> lines4 @ [''GIT_REPO_ROOT='' @ git_root]
         | None \<Rightarrow> lines4)"

definition newline :: string where
  "newline = [char_of (10::nat)]"

definition generate_env :: "host \<Rightarrow> path \<Rightarrow> path \<Rightarrow> string \<Rightarrow> world \<Rightarrow> world" where
  "generate_env h env_path packages_path sfx w =
     (let w1 = print (log ''Generating .env...'' False) w;
          lines = env_lines h (files w1 packages_path) sfx;
          w2 = write_text env_path (join newline lines @ newline) w1;
          (uid, gid) = get_uid_gid h
      in print (log (''Generated .env (UID='' @ str_of_int uid @ '', GID='' @ str_of_int gid
                      @ '')'') True) w2)"

section \<open>The entry point of initialize.py\<close>

record args =
  devcontainer_dir :: string
  suffix_arg :: string

text \<open>\<open>path.touch(exist_ok=True)\<close> and \<open>path.unlink(missing_ok=True)\<close>.\<close>

definition touch :: "path \<Rightarrow> world \<Rightarrow> world" where
  "touch p w = (if path_exists p w then w else write_text p [] w)"

definition unlink :: "path \<Rightarrow> world \<Rightarrow> world" where
  "unlink p w = w\<lparr>files := (files w)(p := None)\<rparr>"

text \<open>
  \<open>if not check: return 1\<close>, then the rest of \<open>main\<close>; an exception of the
  check leaves \<open>main\<close>.
\<close>

definition or_return_1 ::
  "bool result \<times> world \<Rightarrow> (world \<Rightarrow> int result \<times> world) \<Rightarrow> int result \<times> world" where
  "or_return_1 checked rest =
     (case checked of
        (Inl e, w) \<Rightarrow> (Inl e, w)
      | (Inr ok, w) \<Rightarrow> if ok then rest w else (Inr 1, w))"

text \<open>The statements of \<open>main\<close> after the last validation.\<close>

definition merge_and_emit :: "host \<Rightarrow> args \<Rightarrow> string \<Rightarrow> world \<Rightarrow> int result \<times> world" where
  "merge_and_emit h a docker_dir w =
     (case merge_packages h (docker_dir, ''packages.default.yml'')
             (docker_dir, ''packages.custom.yml'') (docker_dir, ''packages.yml'') w of
        (Inl e, w1) \<Rightarrow> (Inl e, w1)
      | (Inr u, w1) \<Rightarrow>
         (let w2 = touch (home_dir h, ''.gitconfig'') (touch (home_dir h, ''.netrc'') w1);
              w3 = print (log ''Initializing environment...'' False) w2;
              w4 = unlink (docker_dir, ''.env'') w3;
              w5 = generate_env h (docker_dir, ''.env'') (docker_dir, ''packages.yml'')
                     (suffix_arg a) w4
          in (Inr 0, print (log ''Environment initialized!'' True) w5)))"

text \<open>
  \<open>main\<close> calls \<open>validate_host()\<close> as a statement: the bool it returns is
  dropped, its output is kept.
\<close>

definition main :: "host \<Rightarrow> args \<Rightarrow> world \<Rightarrow> int result \<times> world" where
  "main h a w =
     (let docker_dir = devcontainer_dir a @ ''/docker'' in
      if \<not> is_dir w docker_dir
      then (Inr 1, print (error (''Directory not found: '' @ docker_dir)) w)
      else
        let w1 = snd (validate_host h w);
            w2 = print (log ''Validating Docker configuration...'' False) w1
        in
        or_return_1 (validate_yaml h (docker_dir, ''docker-compose.default.yml'')
                       validate_compose w2) (\<lambda>w3.
        or_return_1
          (if path_exists (docker_dir, ''docker-compose.custom.yml'') w3
           then validate_yaml h (docker_dir, ''docker-compose.custom.yml'')
                  validate_compose_custom w3
           else (Inr True, create_compose_custom (docker_dir, ''docker-compose.custom.yml'') w3))
          (\<lambda>w4.
        let w5 = print (log ''Validating package configuration...'' False) w4 in
        or_return_1 (validate_yaml h (docker_dir, ''packages.default.yml'')
                       validate_packages w5) (\<lambda>w6.
        or_return_1
          (if path_exists (docker_dir, ''packages.custom.yml'') w6
           then validate_yaml h (docker_dir, ''packages.custom.yml'')
                  validate_packages_custom w6
           else (Inr True, create_packages_custom (docker_dir, ''packages.custom.yml'') w6))
          (merge_and_emit h a docker_dir)))))"

text \<open>
  \<open>sys.exit(main())\<close>: the exit status of the process is the int \<open>main\<close>
  returns, and 1 when an exception leaves \<open>main\<close>.
\<close>

definition exit_status :: "int result \<Rightarrow> int" where
  "exit_status r = (case r of Inl e \<Rightarrow> 1 | Inr n \<Rightarrow> n)"

section \<open>post\_start.py: the profile line of .bashrc\<close>

text \<open>
  The state is the text of \<open>~/.bashrc\<close>, \<open>None\<close> when the file does not exist.
  Opening the file in mode \<open>"a"\<close> creates it. The two lines the function logs
  are left out.
\<close>

definition source_line :: string where
  "source_line = newline @ ''[ -f ~/.vscode_profile ] && . ~/.vscode_profile'' @ newline"

definition enable_vscode_profile :: "string option \<Rightarrow> string option" where
  "enable_vscode_profile bashrc =
     (let content = (case bashrc of None \<Rightarrow> [] | Some txt \<Rightarrow> txt) in
      if sublist ''.vscode_profile'' content then bashrc
      else Some (content @ source_line))"

section \<open>Reading a verdict\<close>

text \<open>
  A validator passes when it returns \<open>True\<close> and fails when it returns \<open>False\<close>;
  a validator that raises does neither.
\<close>

definition passes :: "verdict \<Rightarrow> bool" where
  "passes v = (case v of Inl e \<Rightarrow> False | Inr (out, ok) \<Rightarrow> ok)"

definition fails :: "verdict \<Rightarrow> bool" where
  "fails v = (case v of Inl e \<Rightarrow> False | Inr (out, ok) \<Rightarrow> \<not> ok)"

definition warnings :: "verdict \<Rightarrow> string list" where
  "warnings v = (case v of Inl e \<Rightarrow> [] | Inr (out, ok) \<Rightarrow> out)"

section \<open>The blocks of the environment file\<close>

text \<open>
  The first lines of the file (the proxy variables, and an empty line after
  them when there are any) and its last line (the git root, when there is one).
\<close>

definition proxy_block :: "host \<Rightarrow> string list" where
  "proxy_block h = (if proxy_lines h \<noteq> [] then proxy_lines h @ [[]] else proxy_lines h)"

definition git_block :: "host \<Rightarrow> string list" where
  "git_block h = (case get_git_root h of Some r \<Rightarrow> [''GIT_REPO_ROOT='' @ r] | None \<Rightarrow> [])"

section \<open>A host, a command line and a file system to run the scripts on\<close>

text \<open>
  The host of user alice has no docker and no proxy variable. The directory
  \<open>.devcontainer/docker\<close> holds the two default files, both well-formed.
\<close>

definition alice_sysinfo :: SystemInfo where
  "alice_sysinfo =
     \<lparr>ptrace_scope = Some 1, disk_available_gb = Some 100, memory_total_gb = 16,
      memory_available_gb = 8, docker_available = False, docker_running = False,
      docker_version = None, git_repo_root = None\<rparr>"

definition alice_host :: host where
  "alice_host =
     \<lparr>sysinfo = alice_sysinfo, environ = [''USER'' \<mapsto> ''alice''], on_windows = False,
      os_uid = 1000, os_gid = 1000, home_dir = ''/home/alice'',
      str_of_container = (\<lambda>v. []), safe_load = (\<lambda>txt. Invalid [])\<rparr>"

definition alice_args :: args where
  "alice_args = \<lparr>devcontainer_dir = ''.devcontainer'', suffix_arg = []\<rparr>"

definition compose_default_doc :: yaml where
  "compose_default_doc =
     YMap [(SStr ''services'', YMap [(SStr ''devcontainer'',
       YMap [(SStr ''image'', YStr ''devenv'')])])]"

definition packages_default_doc :: yaml where
  "packages_default_doc =
     YMap [(SStr ''image_name'', YStr ''debian''), (SStr ''image_tag'', YStr ''12''),
           (SStr ''base'', YMap [(SStr ''packages'', YSeq [YStr ''git''])])]"

definition alice_world :: world where
  "alice_world =
     \<lparr>is_dir = (\<lambda>d. d = ''.devcontainer/docker''),
      files = [(''.devcontainer/docker'', ''docker-compose.default.yml'')
                 \<mapsto> Yaml (Parsed compose_default_doc),
               (''.devcontainer/docker'', ''packages.default.yml'')
                 \<mapsto> Yaml (Parsed packages_default_doc)],
      stdout = []\<rparr>"

text \<open>The same directory with a packages default file that has no \<open>image_tag\<close>.\<close>

definition untagged_world :: world where
  "untagged_world =
     alice_world\<lparr>files := (files alice_world)
       ((''.devcontainer/docker'', ''packages.default.yml'') \<mapsto>
          Yaml (Parsed (YMap [(SStr ''image_name'', YStr ''debian''),
            (SStr ''base'', YMap [(SStr ''packages'', YSeq [YStr ''git''])])])))\<rparr>"

section \<open>Runs of main\<close>

text \<open>
  A run that stops before the merge: the exit status is 1, \<open>main\<close> does not
  return 0 (it returns 1 unless an exception left it), and \<open>packages.yml\<close> and
  \<open>.env\<close> in the docker directory are as they were.
\<close>

definition stops_early :: "world \<Rightarrow> string \<Rightarrow> int result \<times> world \<Rightarrow> bool" where
  "stops_early w dd r =
     (exit_status (fst r) = 1 \<and> fst r \<noteq> Inr 0
      \<and> (case fst r of Inl e \<Rightarrow> True | Inr n \<Rightarrow> n = 1)
      \<and> files (snd r) (dd, ''packages.yml'') = files w (dd, ''packages.yml'')
      \<and> files (snd r) (dd, ''.env'') = files w (dd, ''.env''))"

text \<open>The merged document of the well-formed example.\<close>

definition alice_merged_doc :: yaml where
  "alice_merged_doc =
     YMap [(SStr ''image_name'', YStr ''debian''), (SStr ''image_tag'', YStr ''12''),
           (SStr ''base'', YMap [(SStr ''packages'', YSeq [YStr ''git''])]),
           (SStr ''devenv'', YMap [(SStr ''packages'', YSeq [])])]"

section \<open>Documents whose merged objects carry no anchor\<close>

text \<open>
  The objects the merge changes are the document itself, its sections \<open>base\<close>
  and \<open>devenv\<close>, and their lists \<open>packages\<close> and \<open>python_tools\<close>. A document has
  plain paths when none of these sections and lists carries an anchor, so that
  each of them stands at its one path only.
\<close>

definition plain_field :: "string \<Rightarrow> dict \<Rightarrow> bool" where
  "plain_field f sd = (case dict_get f sd of None \<Rightarrow> True | Some v \<Rightarrow> anchor_of v = None)"

definition plain_section :: "string \<Rightarrow> dict \<Rightarrow> bool" where
  "plain_section s d =
     (case dict_get s d of
        Some (YMapAt l sd) \<Rightarrow>
          l = None \<and> plain_field ''packages'' sd \<and> plain_field ''python_tools'' sd
      | _ \<Rightarrow> True)"

definition plain_paths :: "yaml \<Rightarrow> bool" where
  "plain_paths doc =
     (case doc of
        YMapAt l d \<Rightarrow> plain_section ''base'' d \<and> plain_section ''devenv'' d
      | _ \<Rightarrow> True)"

section \<open>Documents with a shared list\<close>

text \<open>
  A packages default file in which \<open>base.packages\<close> carries the anchor \<open>&1\<close> and
  \<open>devenv.packages\<close> is its alias: both paths hold one list object. The custom
  file adds \<open>c\<close> to the first path and \<open>d\<close> to the second.
  \<^verbatim>\<open>
  image_name: debian
  image_tag: '12'
  base:   {packages: &1 [a]}
  devenv: {packages: *1}
  \<close>
\<close>

definition shared_list_default :: dict where
  "shared_list_default =
     [(SStr ''image_name'', YStr ''debian''), (SStr ''image_tag'', YStr ''12''),
      (SStr ''base'', YMap [(SStr ''packages'', YSeqAt (Some 1) [YStr ''a''])]),
      (SStr ''devenv'', YMap [(SStr ''packages'', YSeqAt (Some 1) [YStr ''a''])])]"

definition shared_list_custom :: yaml where
  "shared_list_custom =
     YMap [(SStr ''base'', YMap [(SStr ''packages'', YSeq [YStr ''c''])]),
           (SStr ''devenv'', YMap [(SStr ''packages'', YSeq [YStr ''d''])])]"

text \<open>
  A packages default file in which the top-level keys \<open>common\<close> and \<open>extra\<close>
  and the path \<open>base.packages\<close> hold one list object. The custom file adds
  \<open>curl\<close> to \<open>base.packages\<close>.
  \<^verbatim>\<open>
  image_name: debian
  image_tag: '12'
  common: &1 [git]
  base:   {packages: *1}
  extra:  *1
  \<close>
\<close>

definition aliased_default :: dict where
  "aliased_default =
     [(SStr ''image_name'', YStr ''debian''), (SStr ''image_tag'', YStr ''12''),
      (SStr ''common'', YSeqAt (Some 1) [YStr ''git'']),
      (SStr ''base'', YMap [(SStr ''packages'', YSeqAt (Some 1) [YStr ''git''])]),
      (SStr ''extra'', YSeqAt (Some 1) [YStr ''git''])]"

definition curl_custom :: yaml where
  "curl_custom = YMap [(SStr ''base'', YMap [(SStr ''packages'', YSeq [YStr ''curl''])])]"

section \<open>A custom file with a key that is not a string\<close>

text \<open>
  The packages custom file
  \<^verbatim>\<open>
  base: {packages: []}
  foo: 1
  1: x
  \<close>
  loads as a dict with the str keys \<open>base\<close> and \<open>foo\<close> and the int key 1.
\<close>

definition mixed_keys :: dict where
  "mixed_keys =
     [(SStr ''base'', YMap [(SStr ''packages'', YSeq [])]), (SStr ''foo'', YInt 1),
      (SInt 1, YStr ''x'')]"

definition mixed_keys_world :: world where
  "mixed_keys_world =
     alice_world\<lparr>files := (files alice_world)
       ((''.devcontainer/docker'', ''packages.custom.yml'') \<mapsto> Yaml (Parsed (YMap mixed_keys)))\<rparr>"

section \<open>The profile line of .bashrc is added once\<close>

lemma source_line_has_profile: "sublist ''.vscode_profile'' (txt @ source_line)"
proof -
  have "txt @ source_line =
      (txt @ newline @ ''[ -f ~/'') @ ''.vscode_profile'' @ ('' ] && . ~/.vscode_profile'' @ newline)"
    by (simp add: source_line_def)
  then show ?thesis
    unfolding sublist_def by blast
qed

text \<open>
  C10. When the text of .bashrc already contains \<open>.vscode_profile\<close>,
  \<open>enable_vscode_profile\<close> leaves the file as it is (a missing file counts as
  the empty text); otherwise the file becomes the old text followed by the one
  source line. Running the function twice gives the same file as running it once.
\<close>

theorem enable_vscode_profile_idempotent:
  "(sublist ''.vscode_profile'' (case b of None \<Rightarrow> [] | Some txt \<Rightarrow> txt)
      \<longrightarrow> enable_vscode_profile b = b)
   \<and> (\<not> sublist ''.vscode_profile'' (case b of None \<Rightarrow> [] | Some txt \<Rightarrow> txt)
      \<longrightarrow> enable_vscode_profile b
            = Some ((case b of None \<Rightarrow> [] | Some txt \<Rightarrow> txt) @ source_line))
   \<and> enable_vscode_profile (enable_vscode_profile b) = enable_vscode_profile b"
  by (simp add: enable_vscode_profile_def Let_def source_line_has_profile)

theorem enable_vscode_profile_idempotent_witness:
  "enable_vscode_profile None = Some source_line
   \<and> enable_vscode_profile (Some (''export A=1'' @ source_line))
       = Some (''export A=1'' @ source_line)
   \<and> enable_vscode_profile (enable_vscode_profile None) = enable_vscode_profile None"
proof -
  have absent: "\<not> sublist ''.vscode_profile'' (case None of None \<Rightarrow> [] | Some txt \<Rightarrow> txt)"
    by simp
  have present: "sublist ''.vscode_profile''
      (case Some (''export A=1'' @ source_line) of None \<Rightarrow> [] | Some txt \<Rightarrow> txt)"
    unfolding option.case by (rule source_line_has_profile)
  from enable_vscode_profile_idempotent [of None] absent
  have "enable_vscode_profile None = Some source_line"
    by simp
  moreover from enable_vscode_profile_idempotent [of "Some (''export A=1'' @ source_line)"] present
  have "enable_vscode_profile (Some (''export A=1'' @ source_line))
      = Some (''export A=1'' @ source_line)"
    by blast
  moreover from enable_vscode_profile_idempotent [of None]
  have "enable_vscode_profile (enable_vscode_profile None) = enable_vscode_profile None"
    by blast
  ultimately show ?thesis by blast
qed

section \<open>The validators\<close>

text \<open>
  C3, at a concrete document. The document binds \<open>services.devcontainer\<close> to
  the int 5, which is not a mapping, and the compose validator passes it:
  the validator tests that the key is there and never looks at its value.
\<close>

theorem validate_compose_scalar_passes:
  "at_path ''services'' ''devcontainer''
      (YMap [(SStr ''services'', YMap [(SStr ''devcontainer'', YInt 5)])]) = Some (YInt 5)
   \<and> \<not> is_dict (YInt 5)
   \<and> validate_compose [(SStr ''services'', YMap [(SStr ''devcontainer'', YInt 5)])]
        ''docker-compose.default.yml'' = Inr ([], True)"
  by (simp add: at_path_def dict_get_def validate_compose_def has_key_def)

text \<open>
  C3, as the code has it. The compose validator fails on every top-level
  mapping without the key \<open>services\<close>; and when \<open>services\<close> is bound to a
  mapping (with or without anchor), it passes exactly when that mapping has the
  key \<open>devcontainer\<close>, whatever the value at that key, and fails otherwise.
\<close>

theorem validate_compose_presence:
  "(dict_get ''services'' data = None \<longrightarrow> fails (validate_compose data filename))
   \<and> (dict_get ''services'' data = Some (YMapAt l sv) \<longrightarrow>
        passes (validate_compose data filename) = has_key ''devcontainer'' sv
        \<and> fails (validate_compose data filename) = (\<not> has_key ''devcontainer'' sv))"
  by (simp add: validate_compose_def has_key_def dict_get_def passes_def fails_def)

theorem validate_compose_presence_witness:
  "fails (validate_compose [(SStr ''version'', YStr ''3'')] ''c.yml'')
   \<and> passes (validate_compose
        [(SStr ''services'', YMap [(SStr ''devcontainer'', YMap [])])] ''c.yml'')
   \<and> fails (validate_compose [(SStr ''services'', YMap [(SStr ''db'', YMap [])])] ''c.yml'')"
  using validate_compose_presence
      [where data = "[(SStr ''version'', YStr ''3'')]" and filename = "''c.yml''"]
    validate_compose_presence
      [where data = "[(SStr ''services'', YMap [(SStr ''devcontainer'', YMap [])])]"
       and sv = "[(SStr ''devcontainer'', YMap [])]" and l = None and filename = "''c.yml''"]
    validate_compose_presence
      [where data = "[(SStr ''services'', YMap [(SStr ''db'', YMap [])])]"
       and sv = "[(SStr ''db'', YMap [])]" and l = None and filename = "''c.yml''"]
  by (simp add: dict_get_def has_key_def)

text \<open>
  C2, at concrete documents. Each document is a mapping at the top level, and
  the validator raises instead of returning: the packages validator on \<open>base\<close>
  bound to an int or to a list (\<open>.get\<close> on a value that is no dict), the compose
  validator on \<open>services\<close> bound to an int (\<open>in\<close> on an int), the compose-custom
  validator on \<open>services\<close> bound to a list that holds the str \<open>devcontainer\<close>
  (a list subscripted by a str) and on \<open>services.devcontainer\<close> bound to
  \<open>None\<close> (\<open>.keys()\<close> on \<open>None\<close>).
\<close>

theorem validators_raise:
  "validate_packages [(SStr ''image_name'', YStr ''ubuntu''), (SStr ''image_tag'', YStr ''24.04''),
       (SStr ''base'', YInt 5)] ''packages.default.yml'' = Inl AttributeError
   \<and> validate_packages [(SStr ''image_name'', YStr ''ubuntu''), (SStr ''image_tag'', YStr ''24.04''),
       (SStr ''base'', YSeq [YStr ''git''])] ''packages.default.yml'' = Inl AttributeError
   \<and> validate_compose [(SStr ''services'', YInt 5)] ''docker-compose.default.yml'' = Inl TypeError
   \<and> validate_compose_custom [(SStr ''services'', YSeq [YStr ''devcontainer''])]
        ''docker-compose.custom.yml'' = Inl TypeError
   \<and> validate_compose_custom [(SStr ''services'', YMap [(SStr ''devcontainer'', YNull)])]
        ''docker-compose.custom.yml'' = Inl AttributeError"
  by (simp add: validate_packages_def validate_compose_def validate_compose_custom_def
      has_key_def dict_get_def)

text \<open>Every joined name is part of the joined text.\<close>

lemma join_contains: "x \<in> set xs \<Longrightarrow> sublist x (join sep xs)"
proof (induction sep xs rule: join.induct)
  case (1 sep)
  then show ?case by simp
next
  case (2 sep y)
  then show ?case by simp
next
  case (3 sep y z zs)
  show ?case
  proof (cases "x = y")
    case True
    then show ?thesis by simp
  next
    case False
    with 3 have "sublist x (join sep (z # zs))" by simp
    then obtain ps ss where "join sep (z # zs) = ps @ x @ ss"
      unfolding sublist_def by blast
    then have "join sep (y # z # zs) = (y @ sep @ ps) @ x @ ss" by simp
    then show ?thesis unfolding sublist_def by blast
  qed
qed

lemma has_key_iff: "has_key k d \<longleftrightarrow> SStr k \<in> fst ` set d"
  by (simp add: has_key_def map_of_eq_None_iff)

lemma unknown_keys_member:
  "SStr k \<in> set (unknown_keys d allowed) \<longleftrightarrow> has_key k d \<and> k \<notin> set allowed"
  by (auto simp: unknown_keys_def has_key_iff)

lemma unknown_keys_all_str:
  "list_all key_is_str (map fst d) \<Longrightarrow> list_all key_is_str (unknown_keys d allowed)"
  by (auto simp: unknown_keys_def list_all_iff)

lemma join_sorted_names:
  assumes "list_all key_is_str ks" and "SStr k \<in> set ks"
  shows "\<exists>s. join_sorted ks = Inr s \<and> sublist k s"
proof -
  from assms(2) have "key_str (SStr k) \<in> set (sort (map key_str ks))"
    by (simp only: set_sort set_map) (rule imageI)
  then have "sublist k (join '', '' (sort (map key_str ks)))"
    by (simp add: join_contains)
  with assms(1) show ?thesis by (simp add: join_sorted_def)
qed

text \<open>
  On every top-level mapping the packages-custom validator never returns
  \<open>False\<close>. When all keys of the mapping are strings, it returns \<open>True\<close>; and
  for every key \<open>k\<close> of such a mapping outside \<open>base\<close> and \<open>devenv\<close>, it prints
  one warning, whose list of unknown sections holds \<open>k\<close>.
\<close>

lemma validate_packages_custom_str_keys:
  "\<not> fails (validate_packages_custom data filename)
   \<and> (list_all key_is_str (map fst data) \<longrightarrow> passes (validate_packages_custom data filename))
   \<and> (list_all key_is_str (map fst data) \<longrightarrow> has_key k data \<longrightarrow> k \<notin> set packages_allowed \<longrightarrow>
        (\<exists>s. warnings (validate_packages_custom data filename)
                = [warn (filename @ '': Unknown sections: '' @ s)] \<and> sublist k s))"
proof (intro conjI impI)
  show "\<not> fails (validate_packages_custom data filename)"
    by (simp add: validate_packages_custom_def fails_def Let_def split: sum.splits)
next
  assume "list_all key_is_str (map fst data)"
  then have "list_all key_is_str (unknown_keys data packages_allowed)"
    by (rule unknown_keys_all_str)
  then show "passes (validate_packages_custom data filename)"
    by (simp add: validate_packages_custom_def passes_def Let_def join_sorted_def)
next
  assume strs: "list_all key_is_str (map fst data)"
    and key: "has_key k data" and unknown: "k \<notin> set packages_allowed"
  from strs have all: "list_all key_is_str (unknown_keys data packages_allowed)"
    by (rule unknown_keys_all_str)
  from key unknown have mem: "SStr k \<in> set (unknown_keys data packages_allowed)"
    by (simp add: unknown_keys_member)
  then have ne: "unknown_keys data packages_allowed \<noteq> []" by auto
  from join_sorted_names [OF all mem] obtain s
    where joined: "join_sorted (unknown_keys data packages_allowed) = Inr s"
      and named: "sublist k s"
    by blast
  from ne joined have "warnings (validate_packages_custom data filename)
      = [warn (filename @ '': Unknown sections: '' @ s)]"
    by (simp add: validate_packages_custom_def warnings_def Let_def)
  with named show "\<exists>s. warnings (validate_packages_custom data filename)
                = [warn (filename @ '': Unknown sections: '' @ s)] \<and> sublist k s"
    by blast
qed

text \<open>
  The example of the specification: the key \<open>foo\<close> beside \<open>base\<close> and \<open>devenv\<close>.
\<close>

lemma validate_packages_custom_foo:
  "validate_packages_custom
       [(SStr ''base'', YMap [(SStr ''packages'', YSeq [])]),
        (SStr ''devenv'', YMap [(SStr ''packages'', YSeq [])]),
        (SStr ''foo'', YInt 1)] ''packages.custom.yml''
     = Inr ([warn ''packages.custom.yml: Unknown sections: foo''], True)"
  by (simp add: validate_packages_custom_def unknown_keys_def packages_allowed_def join_sorted_def)

section \<open>The merge\<close>

text \<open>Lookups in a dict after \<open>setdefault\<close> and after a value is put back.\<close>

lemma dict_get_update:
  "dict_get k (AList.update (SStr k') v d) = (if k = k' then Some v else dict_get k d)"
  by (simp add: dict_get_def update_conv')

lemma dict_get_Nil: "dict_get k [] = None"
  by (simp add: dict_get_def)

lemma dict_get_Cons:
  "dict_get k ((SStr k', v) # d) = (if k = k' then Some v else dict_get k d)"
  by (simp add: dict_get_def)

lemmas dict_get_simps = dict_get_update dict_get_Nil dict_get_Cons

lemma anchor_of_list: "is_list v \<Longrightarrow> anchor_of v = None \<Longrightarrow> \<exists>xs. v = YSeq xs"
  by (cases v) auto

lemma plain_section_cases:
  assumes "plain_section s md"
  obtains (absent) "dict_get s md = None"
  | (present) sd where "dict_get s md = Some (YMap sd)"
      and "plain_field ''packages'' sd" and "plain_field ''python_tools'' sd"
  | (other) v where "dict_get s md = Some v" and "\<not> is_dict v"
proof (cases "dict_get s md")
  case None
  then show ?thesis by (rule absent)
next
  case (Some v)
  show ?thesis
  proof (cases v)
    case (YMapAt l sd)
    with Some assms show ?thesis
      by (intro present [of sd]) (simp_all add: plain_section_def)
  qed (use Some in \<open>auto intro: other\<close>)
qed

text \<open>One \<open>extend\<close> on a document with plain paths.\<close>

lemma extend_field_plain:
  assumes plain: "plain_paths m" and s: "s = ''base'' \<or> s = ''devenv''"
    and f: "f = ''packages'' \<or> f = ''python_tools''"
    and run: "extend_field s f cs m = Inr m'"
  obtains lr md sd xs arg ys where "m = YMapAt lr md"
    and "dict_get s md = None \<and> sd = [] \<or> dict_get s md = Some (YMap sd)"
    and "dict_get f sd = None \<and> xs = [] \<or> dict_get f sd = Some (YSeq xs)"
    and "py_getitem cs f = Inr arg" and "py_iter arg = Inr ys"
    and "m' = YMapAt lr (AList.update (SStr s)
           (YMap (AList.update (SStr f) (YSeq (xs @ ys)) sd)) md)"
proof -
  from run obtain lr md where m: "m = YMapAt lr md"
    by (cases m) (simp_all add: extend_field_def)
  with plain s have "plain_section s md"
    by (auto simp: plain_paths_def)
  then show ?thesis
  proof (cases rule: plain_section_cases)
    case absent
    with run m obtain arg ys where "py_getitem cs f = Inr arg" and "py_iter arg = Inr ys"
      and "m' = YMapAt lr (AList.update (SStr s)
           (YMap (AList.update (SStr f) (YSeq ([] @ ys)) [])) md)"
      by (auto simp: extend_field_def changed_at_def dict_get_simps Let_def
          split: sum.splits)
    with m absent show ?thesis
      by (intro that [of lr md "[]" "[]" arg ys]) (simp_all add: dict_get_Nil)
  next
    case (present sd)
    from f present(2,3) have pf: "plain_field f sd" by auto
    show ?thesis
    proof (cases "dict_get f sd")
      case None
      with run m present(1) obtain arg ys where "py_getitem cs f = Inr arg"
        and "py_iter arg = Inr ys"
        and "m' = YMapAt lr (AList.update (SStr s)
           (YMap (AList.update (SStr f) (YSeq ([] @ ys)) sd)) md)"
        by (auto simp: extend_field_def changed_at_def dict_get_simps Let_def
            split: sum.splits)
      with m present(1) None show ?thesis
        by (intro that [of lr md sd "[]" arg ys]) simp_all
    next
      case (Some v)
      with pf have anchor: "anchor_of v = None" by (simp add: plain_field_def)
      from run m present(1) Some have "is_list v"
        by (auto simp: extend_field_def Let_def split: if_splits)
      with anchor obtain xs where v: "v = YSeq xs"
        using anchor_of_list by blast
      with run m present(1) Some obtain arg ys where "py_getitem cs f = Inr arg"
        and "py_iter arg = Inr ys"
        and "m' = YMapAt lr (AList.update (SStr s)
           (YMap (AList.update (SStr f) (YSeq (xs @ ys)) sd)) md)"
        by (auto simp: extend_field_def changed_at_def dict_get_simps Let_def
            split: sum.splits)
      with m present(1) Some v show ?thesis
        by (intro that [of lr md sd xs arg ys]) simp_all
    qed
  next
    case (other v)
    with run m have False
      by (cases v) (simp_all add: extend_field_def)
    then show ?thesis ..
  qed
qed


lemma plain_field_update:
  "anchor_of v = None \<Longrightarrow> plain_field g sd \<Longrightarrow> plain_field g (AList.update (SStr f) v sd)"
  by (simp add: plain_field_def dict_get_update)

lemma plain_field_Nil: "plain_field g []"
  by (simp add: plain_field_def dict_get_Nil)

lemma plain_section_update:
  assumes "plain_section s' md" and "plain_field ''packages'' sd'" and "plain_field ''python_tools'' sd'"
  shows "plain_section s' (AList.update (SStr s) (YMap sd') md)"
  using assms by (simp add: plain_section_def dict_get_update)

lemma plain_section_fields:
  assumes "plain_section s md" and "dict_get s md = Some (YMap sd)"
  shows "plain_field ''packages'' sd" and "plain_field ''python_tools'' sd"
  using assms by (simp_all add: plain_section_def)

text \<open>
  On a document with plain paths one \<open>extend\<close> keeps the paths plain, leaves
  every other top-level key and every other path as it was, and appends at its
  own path.
\<close>

lemma extend_field_plain_paths:
  assumes "plain_paths m" and "s = ''base'' \<or> s = ''devenv''"
    and "f = ''packages'' \<or> f = ''python_tools''" and "extend_field s f cs m = Inr m'"
  shows "plain_paths m'"
proof -
  obtain lr md sd xs arg ys where m: "m = YMapAt lr md"
    and sec: "dict_get s md = None \<and> sd = [] \<or> dict_get s md = Some (YMap sd)"
    and fld: "dict_get f sd = None \<and> xs = [] \<or> dict_get f sd = Some (YSeq xs)"
    and arg: "py_getitem cs f = Inr arg" and ys: "py_iter arg = Inr ys"
    and m': "m' = YMapAt lr (AList.update (SStr s)
           (YMap (AList.update (SStr f) (YSeq (xs @ ys)) sd)) md)"
    by (rule extend_field_plain [OF assms(1-4)])
  from assms(1) m have base: "plain_section ''base'' md" and devenv: "plain_section ''devenv'' md"
    by (simp_all add: plain_paths_def)
  from assms(2) base devenv have "plain_section s md" by auto
  with sec have "plain_field ''packages'' sd" and "plain_field ''python_tools'' sd"
    by (auto simp: plain_field_Nil dest: plain_section_fields)
  then have "plain_field ''packages'' (AList.update (SStr f) (YSeq (xs @ ys)) sd)"
    and "plain_field ''python_tools'' (AList.update (SStr f) (YSeq (xs @ ys)) sd)"
    by (simp_all add: plain_field_update)
  then have "plain_section s' (AList.update (SStr s)
      (YMap (AList.update (SStr f) (YSeq (xs @ ys)) sd)) md)" if "plain_section s' md" for s'
    using that by (intro plain_section_update)
  with base devenv m' show ?thesis
    by (simp add: plain_paths_def)
qed

lemma extend_field_plain_top:
  assumes "plain_paths m" and "s = ''base'' \<or> s = ''devenv''"
    and "f = ''packages'' \<or> f = ''python_tools''" and "extend_field s f cs m = Inr m'"
    and "k \<noteq> s"
  shows "top_level k m' = top_level k m"
proof -
  obtain lr md sd xs arg ys where m: "m = YMapAt lr md"
    and sec: "dict_get s md = None \<and> sd = [] \<or> dict_get s md = Some (YMap sd)"
    and fld: "dict_get f sd = None \<and> xs = [] \<or> dict_get f sd = Some (YSeq xs)"
    and arg: "py_getitem cs f = Inr arg" and ys: "py_iter arg = Inr ys"
    and m': "m' = YMapAt lr (AList.update (SStr s)
           (YMap (AList.update (SStr f) (YSeq (xs @ ys)) sd)) md)"
    by (rule extend_field_plain [OF assms(1-4)])
  with assms(5) show ?thesis
    by (simp add: top_level_def dict_get_update)
qed

lemma extend_field_plain_frame:
  assumes "plain_paths m" and "s = ''base'' \<or> s = ''devenv''"
    and "f = ''packages'' \<or> f = ''python_tools''" and "extend_field s f cs m = Inr m'"
    and "s' \<noteq> s \<or> g \<noteq> f"
  shows "at_path s' g m' = at_path s' g m"
proof -
  obtain lr md sd xs arg ys where m: "m = YMapAt lr md"
    and sec: "dict_get s md = None \<and> sd = [] \<or> dict_get s md = Some (YMap sd)"
    and fld: "dict_get f sd = None \<and> xs = [] \<or> dict_get f sd = Some (YSeq xs)"
    and arg: "py_getitem cs f = Inr arg" and ys: "py_iter arg = Inr ys"
    and m': "m' = YMapAt lr (AList.update (SStr s)
           (YMap (AList.update (SStr f) (YSeq (xs @ ys)) sd)) md)"
    by (rule extend_field_plain [OF assms(1-4)])
  from assms(5) m sec m' show ?thesis
    by (auto simp: at_path_def dict_get_simps)
qed

lemma extend_field_plain_hit:
  assumes "plain_paths m" and "s = ''base'' \<or> s = ''devenv''"
    and "f = ''packages'' \<or> f = ''python_tools''"
    and "extend_field s f (YMapAt lc csd) m = Inr m'"
    and "dict_get f csd = Some (YSeqAt ly ys)" and "at_path s f m = Some (YSeq xs)"
  shows "at_path s f m' = Some (YSeq (xs @ ys))"
proof -
  obtain lr md sd xs' arg ys' where "m = YMapAt lr md"
    and "dict_get s md = None \<and> sd = [] \<or> dict_get s md = Some (YMap sd)"
    and "dict_get f sd = None \<and> xs' = [] \<or> dict_get f sd = Some (YSeq xs')"
    and "py_getitem (YMapAt lc csd) f = Inr arg" and "py_iter arg = Inr ys'"
    and "m' = YMapAt lr (AList.update (SStr s)
           (YMap (AList.update (SStr f) (YSeq (xs' @ ys')) sd)) md)"
    by (rule extend_field_plain [OF assms(1-4)])
  note shape = this
  from assms(6) shape(1,2) have sd: "dict_get s md = Some (YMap sd)"
    by (auto simp: at_path_def dict_get_Nil split: option.splits yaml.splits)
  with assms(6) shape(1,3) have "xs' = xs"
    by (auto simp: at_path_def)
  moreover from assms(5) shape(4,5) have "ys' = ys"
    by auto
  ultimately show ?thesis
    using shape(6) by (simp add: at_path_def dict_get_update)
qed

lemma merge_field_cases:
  assumes "merge_field s f cs m = Inr m'"
  obtains (skipped) "py_in f cs = Inr False" and "m' = m"
  | (extended) "py_in f cs = Inr True" and "extend_field s f cs m = Inr m'"
proof (cases "py_in f cs")
  case (Inl e)
  with assms show ?thesis by (simp add: merge_field_def)
next
  case (Inr present)
  with assms show ?thesis
    by (cases present) (simp_all add: merge_field_def skipped extended)
qed

lemma merge_field_plain:
  assumes "plain_paths m" and "s = ''base'' \<or> s = ''devenv''"
    and "f = ''packages'' \<or> f = ''python_tools''" and "merge_field s f cs m = Inr m'"
  shows "plain_paths m'"
    and "k \<noteq> s \<Longrightarrow> top_level k m' = top_level k m"
    and "s' \<noteq> s \<or> g \<noteq> f \<Longrightarrow> at_path s' g m' = at_path s' g m"
proof -
  from assms(4) have "plain_paths m' \<and> (k \<noteq> s \<longrightarrow> top_level k m' = top_level k m)
      \<and> (s' \<noteq> s \<or> g \<noteq> f \<longrightarrow> at_path s' g m' = at_path s' g m)"
  proof (cases rule: merge_field_cases)
    case skipped
    with assms(1) show ?thesis by simp
  next
    case extended
    from extend_field_plain_paths [OF assms(1-3) extended(2)]
      extend_field_plain_top [OF assms(1-3) extended(2), of k]
      extend_field_plain_frame [OF assms(1-3) extended(2), of s' g]
    show ?thesis by blast
  qed
  then show "plain_paths m'"
    and "k \<noteq> s \<Longrightarrow> top_level k m' = top_level k m"
    and "s' \<noteq> s \<or> g \<noteq> f \<Longrightarrow> at_path s' g m' = at_path s' g m"
    by simp_all
qed

lemma merge_field_plain_hit:
  assumes "plain_paths m" and "s = ''base'' \<or> s = ''devenv''"
    and "f = ''packages'' \<or> f = ''python_tools''"
    and "merge_field s f (YMapAt lc csd) m = Inr m'"
    and "dict_get f csd = Some (YSeqAt ly ys)" and "at_path s f m = Some (YSeq xs)"
  shows "at_path s f m' = Some (YSeq (xs @ ys))"
proof -
  from assms(4,5) have "extend_field s f (YMapAt lc csd) m = Inr m'"
    by (simp add: merge_field_def has_key_def dict_get_def)
  then show ?thesis
    by (rule extend_field_plain_hit [OF assms(1-3) _ assms(5,6)])
qed

text \<open>The same for one section, with both its fields.\<close>

lemma merge_section_cases:
  assumes "merge_section s c m = Inr m'"
  obtains (skipped) "py_in s c = Inr False" and "m' = m"
  | (merged) cs m1 where "py_in s c = Inr True" and "py_getitem c s = Inr cs"
      and "merge_field s ''packages'' cs m = Inr m1"
      and "merge_field s ''python_tools'' cs m1 = Inr m'"
proof (cases "py_in s c")
  case (Inl e)
  with assms show ?thesis by (simp add: merge_section_def)
next
  case (Inr present)
  show ?thesis
  proof (cases present)
    case False
    with Inr assms show ?thesis by (intro skipped) (simp_all add: merge_section_def)
  next
    case True
    show ?thesis
    proof (cases "py_getitem c s")
      case (Inl e)
      with Inr True assms show ?thesis by (simp add: merge_section_def)
    next
      case cs: (Inr cs)
      show ?thesis
      proof (cases "merge_field s ''packages'' cs m")
        case (Inl e)
        with Inr True cs assms show ?thesis by (simp add: merge_section_def)
      next
        case m1: (Inr m1)
        with Inr True cs assms have "merge_field s ''python_tools'' cs m1 = Inr m'"
          by (simp add: merge_section_def)
        with Inr True cs m1 show ?thesis by (intro merged [of cs m1]) simp_all
      qed
    qed
  qed
qed

lemma merge_section_plain:
  assumes "plain_paths m" and "s = ''base'' \<or> s = ''devenv''"
    and "merge_section s c m = Inr m'"
  shows "plain_paths m'"
    and "k \<noteq> s \<Longrightarrow> top_level k m' = top_level k m"
    and "s' \<noteq> s \<or> (g \<noteq> ''packages'' \<and> g \<noteq> ''python_tools'') \<Longrightarrow>
      at_path s' g m' = at_path s' g m"
proof -
  from assms(3) have "plain_paths m' \<and> (k \<noteq> s \<longrightarrow> top_level k m' = top_level k m)
      \<and> (s' \<noteq> s \<or> (g \<noteq> ''packages'' \<and> g \<noteq> ''python_tools'') \<longrightarrow>
          at_path s' g m' = at_path s' g m)"
  proof (cases rule: merge_section_cases)
    case skipped
    with assms(1) show ?thesis by simp
  next
    case (merged cs m1)
    have p1: "plain_paths m1"
      by (rule merge_field_plain(1) [OF assms(1,2) _ merged(3)]) simp
    have t1: "top_level k m1 = top_level k m" if "k \<noteq> s"
      using that by (intro merge_field_plain(2) [OF assms(1,2) _ merged(3)]) simp_all
    have f1: "at_path s' g m1 = at_path s' g m" if "s' \<noteq> s \<or> g \<noteq> ''packages''"
      using that by (intro merge_field_plain(3) [OF assms(1,2) _ merged(3)]) simp_all
    have p2: "plain_paths m'"
      by (rule merge_field_plain(1) [OF p1 assms(2) _ merged(4)]) simp
    have t2: "top_level k m' = top_level k m1" if "k \<noteq> s"
      using that by (intro merge_field_plain(2) [OF p1 assms(2) _ merged(4)]) simp_all
    have f2: "at_path s' g m' = at_path s' g m1" if "s' \<noteq> s \<or> g \<noteq> ''python_tools''"
      using that by (intro merge_field_plain(3) [OF p1 assms(2) _ merged(4)]) simp_all
    from p2 t1 t2 f1 f2 show ?thesis by auto
  qed
  then show "plain_paths m'"
    and "k \<noteq> s \<Longrightarrow> top_level k m' = top_level k m"
    and "s' \<noteq> s \<or> (g \<noteq> ''packages'' \<and> g \<noteq> ''python_tools'') \<Longrightarrow>
      at_path s' g m' = at_path s' g m"
    by simp_all
qed

lemma merge_section_plain_hit:
  assumes "plain_paths m" and "s = ''base'' \<or> s = ''devenv''"
    and "merge_section s (YMapAt lc cd) m = Inr m'"
    and "dict_get s cd = Some (YMapAt ls csd)"
    and "f = ''packages'' \<or> f = ''python_tools''"
    and "dict_get f csd = Some (YSeqAt ly ys)" and "at_path s f m = Some (YSeq xs)"
  shows "at_path s f m' = Some (YSeq (xs @ ys))"
proof -
  from assms(3) obtain m1 where
    m1: "merge_field s ''packages'' (YMapAt ls csd) m = Inr m1"
    and m': "merge_field s ''python_tools'' (YMapAt ls csd) m1 = Inr m'"
  proof (cases rule: merge_section_cases)
    case skipped
    with assms(4) show ?thesis by (simp add: has_key_def dict_get_def)
  next
    case (merged cs m1)
    with assms(4) have "cs = YMapAt ls csd" by simp
    with merged that show ?thesis by blast
  qed
  from merge_field_plain(1) [OF assms(1,2) _ m1] have p1: "plain_paths m1" by simp
  from assms(5) show ?thesis
  proof
    assume f: "f = ''packages''"
    from merge_field_plain_hit [OF assms(1,2) _ m1 [folded f]] assms(6,7) f
    have "at_path s f m1 = Some (YSeq (xs @ ys))"
      by blast
    moreover from merge_field_plain(3) [OF p1 assms(2) _ m', where s' = s and g = f] f
    have "at_path s f m' = at_path s f m1" by simp
    ultimately show ?thesis by simp
  next
    assume f: "f = ''python_tools''"
    from merge_field_plain(3) [OF assms(1,2) _ m1, where s' = s and g = f] f
    have "at_path s f m1 = at_path s f m" by simp
    with assms(7) have "at_path s f m1 = Some (YSeq xs)" by simp
    with merge_field_plain_hit [OF p1 assms(2) _ m' [folded f]] assms(6) f
    show ?thesis by blast
  qed
qed


text \<open>Lookups in a value whose objects are renamed apart.\<close>

lemma dict_get_renamed:
  "dict_get k (map (map_prod id g) d) = map_option g (dict_get k d)"
  by (induction d) (auto simp: dict_get_def)

lemma custom_renamed:
  assumes "at_path s f c = Some (YSeqAt ly ys)"
  obtains lc cd ls csd ly' where
    "rename_apart n (if py_truthy c then c else YMap []) = YMapAt lc cd"
    and "dict_get s cd = Some (YMapAt ls csd)"
    and "dict_get f csd = Some (YSeqAt ly' (map (rename_apart n) ys))"
proof -
  from assms obtain lc cd ls csd where c: "c = YMapAt lc cd"
    and s: "dict_get s cd = Some (YMapAt ls csd)" and f: "dict_get f csd = Some (YSeqAt ly ys)"
    by (auto simp: at_path_def split: yaml.splits option.splits)
  from s have "cd \<noteq> []" by (auto simp: dict_get_Nil)
  with c have "rename_apart n (if py_truthy c then c else YMap [])
      = YMapAt (map_option (\<lambda>i. i + n) lc) (map (map_prod id (rename_apart n)) cd)"
    by simp
  moreover from s have "dict_get s (map (map_prod id (rename_apart n)) cd)
      = Some (YMapAt (map_option (\<lambda>i. i + n) ls) (map (map_prod id (rename_apart n)) csd))"
    by (simp add: dict_get_renamed)
  moreover from f have "dict_get f (map (map_prod id (rename_apart n)) csd)
      = Some (YSeqAt (map_option (\<lambda>i. i + n) ly) (map (rename_apart n) ys))"
    by (simp add: dict_get_renamed)
  ultimately show ?thesis by (rule that)
qed

lemma merge_documents_cases:
  assumes "merge_documents (Parsed d) cf = Inr m"
  obtains (no_custom) "cf = None" and "m = d"
  | (custom) c m1 where "cf = Some (Parsed c)"
      and "merge_section ''base''
             (rename_apart (Suc (greatest_anchor d)) (if py_truthy c then c else YMap [])) d
           = Inr m1"
      and "merge_section ''devenv''
             (rename_apart (Suc (greatest_anchor d)) (if py_truthy c then c else YMap [])) m1
           = Inr m"
proof (cases cf)
  case None
  with assms show ?thesis by (intro no_custom) (simp_all add: merge_documents_def)
next
  case (Some l)
  show ?thesis
  proof (cases l)
    case (Parsed c)
    let ?c = "rename_apart (Suc (greatest_anchor d)) (if py_truthy c then c else YMap [])"
    show ?thesis
    proof (cases "merge_section ''base'' ?c d")
      case (Inl e)
      with Some Parsed assms show ?thesis by (simp add: merge_documents_def Let_def)
    next
      case (Inr m1)
      with Some Parsed assms have "merge_section ''devenv'' ?c m1 = Inr m"
        by (simp add: merge_documents_def Let_def)
      with Some Parsed Inr show ?thesis by (intro custom [of c m1]) simp_all
    qed
  qed (use Some assms in \<open>simp_all add: merge_documents_def\<close>)
qed

text \<open>
  When no section and no list on the four paths of the default document
  carries an anchor, the merge appends at each path: a returned document holds
  the default sequence followed by the custom sequence (its objects renamed
  apart), in their orders.
\<close>

lemma merge_appends_plain:
  assumes plain: "plain_paths d"
    and s: "s = ''base'' \<or> s = ''devenv''" and f: "f = ''packages'' \<or> f = ''python_tools''"
    and d: "at_path s f d = Some (YSeq xs)" and c: "at_path s f c = Some (YSeqAt ly ys)"
    and m: "merge_documents (Parsed d) (Some (Parsed c)) = Inr m"
  shows "at_path s f m = Some (YSeq (xs @ map (rename_apart (Suc (greatest_anchor d))) ys))"
proof -
  let ?n = "Suc (greatest_anchor d)"
  let ?c = "rename_apart ?n (if py_truthy c then c else YMap [])"
  from m obtain m1 where m1: "merge_section ''base'' ?c d = Inr m1"
    and m2: "merge_section ''devenv'' ?c m1 = Inr m"
  proof (cases rule: merge_documents_cases)
    case no_custom
    then show ?thesis by simp
  next
    case (custom c' m1)
    from custom(1) have "c' = c" by simp
    with custom(2,3) that show ?thesis by blast
  qed
  from c obtain lc cd ls csd ly' where renamed: "?c = YMapAt lc cd"
    and csd: "dict_get s cd = Some (YMapAt ls csd)"
    and ys: "dict_get f csd = Some (YSeqAt ly' (map (rename_apart ?n) ys))"
    by (rule custom_renamed)
  have p1: "plain_paths m1"
    by (rule merge_section_plain(1) [OF plain _ m1]) simp
  from s show ?thesis
  proof
    assume base: "s = ''base''"
    from merge_section_plain_hit [OF plain _ m1 [unfolded renamed] csd [unfolded base] f ys]
      d base
    have "at_path s f m1 = Some (YSeq (xs @ map (rename_apart ?n) ys))" by simp
    moreover have "at_path s f m = at_path s f m1"
      by (rule merge_section_plain(3) [OF p1 _ m2]) (simp_all add: base)
    ultimately show ?thesis by simp
  next
    assume devenv: "s = ''devenv''"
    have "at_path s f m1 = at_path s f d"
      by (rule merge_section_plain(3) [OF plain _ m1]) (simp_all add: devenv)
    with d have "at_path s f m1 = Some (YSeq xs)" by simp
    with merge_section_plain_hit [OF p1 _ m2 [unfolded renamed] csd [unfolded devenv] f ys]
      devenv
    show ?thesis by simp
  qed
qed

text \<open>
  On such a default document the merge leaves every top-level key other than
  \<open>base\<close> and \<open>devenv\<close>, and every field other than \<open>packages\<close> and
  \<open>python_tools\<close>, bound as in the default document.
\<close>

lemma merge_keeps_plain:
  assumes "plain_paths d" and "merge_documents (Parsed d) cf = Inr m"
  shows "k \<noteq> ''base'' \<Longrightarrow> k \<noteq> ''devenv'' \<Longrightarrow> top_level k m = top_level k d"
    and "g \<noteq> ''packages'' \<Longrightarrow> g \<noteq> ''python_tools'' \<Longrightarrow> at_path s g m = at_path s g d"
proof -
  from assms(2) have "(k \<noteq> ''base'' \<longrightarrow> k \<noteq> ''devenv'' \<longrightarrow> top_level k m = top_level k d)
      \<and> (g \<noteq> ''packages'' \<longrightarrow> g \<noteq> ''python_tools'' \<longrightarrow> at_path s g m = at_path s g d)"
  proof (cases rule: merge_documents_cases)
    case no_custom
    then show ?thesis by simp
  next
    case (custom c m1)
    have p1: "plain_paths m1"
      by (rule merge_section_plain(1) [OF assms(1) _ custom(2)]) simp
    have "top_level k m1 = top_level k d" if "k \<noteq> ''base''"
      using that by (intro merge_section_plain(2) [OF assms(1) _ custom(2)]) simp_all
    moreover have "top_level k m = top_level k m1" if "k \<noteq> ''devenv''"
      using that by (intro merge_section_plain(2) [OF p1 _ custom(3)]) simp_all
    moreover have "at_path s g m1 = at_path s g d"
      if "g \<noteq> ''packages''" and "g \<noteq> ''python_tools''"
      using that by (intro merge_section_plain(3) [OF assms(1) _ custom(2)]) simp_all
    moreover have "at_path s g m = at_path s g m1"
      if "g \<noteq> ''packages''" and "g \<noteq> ''python_tools''"
      using that by (intro merge_section_plain(3) [OF p1 _ custom(3)]) simp_all
    ultimately show ?thesis by simp
  qed
  then show "k \<noteq> ''base'' \<Longrightarrow> k \<noteq> ''devenv'' \<Longrightarrow> top_level k m = top_level k d"
    and "g \<noteq> ''packages'' \<Longrightarrow> g \<noteq> ''python_tools'' \<Longrightarrow> at_path s g m = at_path s g d"
    by simp_all
qed

text \<open>The two examples of the specification, evaluated.\<close>

lemma merge_documents_example:
  "merge_documents
     (Parsed (YMap [(SStr ''image_name'', YStr ''ubuntu''), (SStr ''image_tag'', YStr ''24.04''),
        (SStr ''base'', YMap [(SStr ''packages'', YSeq [YStr ''a'', YStr ''b''])])]))
     (Some (Parsed (YMap [(SStr ''base'', YMap [(SStr ''packages'', YSeq [YStr ''c''])])])))
   = Inr (YMap [(SStr ''image_name'', YStr ''ubuntu''), (SStr ''image_tag'', YStr ''24.04''),
        (SStr ''base'', YMap [(SStr ''packages'', YSeq [YStr ''a'', YStr ''b'', YStr ''c''])])])"
  by (simp add: merge_documents_def merge_section_def merge_field_def extend_field_def
      changed_at_def has_key_def dict_get_def)

lemma merge_documents_no_custom: "merge_documents (Parsed d) None = Inr d"
  by (simp add: merge_documents_def)

text \<open>
  C4, at a concrete pair of documents. The default file passes the packages
  validator; \<open>base.packages\<close> and \<open>devenv.packages\<close> both hold the sequence
  \<open>[a]\<close>, as one list object. The custom file holds \<open>[c]\<close> at the first path and
  \<open>[d]\<close> at the second. The merge extends the one list twice, and the merged
  document holds \<open>[a, c, d]\<close> at both paths: neither \<open>[a, c]\<close> at the first nor
  \<open>[a, d]\<close> at the second.
\<close>

theorem merge_extends_shared_list:
  "passes (validate_packages shared_list_default ''packages.default.yml'')
   \<and> at_path ''base'' ''packages'' (YMap shared_list_default) = Some (YSeqAt (Some 1) [YStr ''a''])
   \<and> at_path ''devenv'' ''packages'' (YMap shared_list_default) = Some (YSeqAt (Some 1) [YStr ''a''])
   \<and> at_path ''base'' ''packages'' shared_list_custom = Some (YSeq [YStr ''c''])
   \<and> at_path ''devenv'' ''packages'' shared_list_custom = Some (YSeq [YStr ''d''])
   \<and> merge_documents (Parsed (YMap shared_list_default)) (Some (Parsed shared_list_custom))
       = Inr (YMap
          [(SStr ''image_name'', YStr ''debian''), (SStr ''image_tag'', YStr ''12''),
           (SStr ''base'',
              YMap [(SStr ''packages'', YSeqAt (Some 1) [YStr ''a'', YStr ''c'', YStr ''d''])]),
           (SStr ''devenv'',
              YMap [(SStr ''packages'', YSeqAt (Some 1) [YStr ''a'', YStr ''c'', YStr ''d''])])])"
  by (simp add: shared_list_default_def shared_list_custom_def passes_def validate_packages_def
      at_path_def merge_documents_def merge_section_def merge_field_def extend_field_def
      changed_at_def has_key_def dict_get_def)

text \<open>
  C5, at a concrete pair of documents. The default file passes the packages
  validator; its top-level keys \<open>common\<close> and \<open>extra\<close> are outside the table of
  merged fields and are bound to \<open>[git]\<close>, the list object that also stands at
  \<open>base.packages\<close>. The custom file holds \<open>[curl]\<close> at \<open>base.packages\<close>. In the
  merged document \<open>common\<close> and \<open>extra\<close> are bound to \<open>[git, curl]\<close>, not to
  their default value.
\<close>

theorem merge_changes_aliased_keys:
  "passes (validate_packages aliased_default ''packages.default.yml'')
   \<and> top_level ''common'' (YMap aliased_default) = Some (YSeqAt (Some 1) [YStr ''git''])
   \<and> top_level ''extra'' (YMap aliased_default) = Some (YSeqAt (Some 1) [YStr ''git''])
   \<and> merge_documents (Parsed (YMap aliased_default)) (Some (Parsed curl_custom))
       = Inr (YMap
          [(SStr ''image_name'', YStr ''debian''), (SStr ''image_tag'', YStr ''12''),
           (SStr ''common'', YSeqAt (Some 1) [YStr ''git'', YStr ''curl'']),
           (SStr ''base'', YMap [(SStr ''packages'', YSeqAt (Some 1) [YStr ''git'', YStr ''curl''])]),
           (SStr ''extra'', YSeqAt (Some 1) [YStr ''git'', YStr ''curl''])])"
  by (simp add: aliased_default_def curl_custom_def passes_def validate_packages_def
      top_level_def merge_documents_def merge_section_def merge_field_def extend_field_def
      changed_at_def has_key_def dict_get_def)

section \<open>The environment file\<close>

lemma image_config_unreadable:
  assumes "\<forall>l d. map_option (load_file h) f \<noteq> Some (Parsed (YMapAt l d))"
  shows "image_config h f = (YStr ''ubuntu'', YStr ''24.04'')"
proof (cases f)
  case None
  then show ?thesis by (simp add: image_config_def read_image_config_def)
next
  case (Some fc)
  with assms have no_dict: "\<forall>l d. load_file h fc \<noteq> Parsed (YMapAt l d)" by simp
  show ?thesis
  proof (cases "load_file h fc")
    case (Parsed v)
    with no_dict have "\<forall>l d. v \<noteq> YMapAt l d" by simp
    then have "py_get_default v ''image_name'' (YStr ''ubuntu'') = Inl AttributeError"
      by (cases v) simp_all
    with Some Parsed show ?thesis by (simp add: image_config_def read_image_config_def)
  next
    case (Invalid msg)
    with Some show ?thesis by (simp add: image_config_def read_image_config_def)
  next
    case Unreadable
    with Some show ?thesis by (simp add: image_config_def read_image_config_def)
  qed
qed

lemma image_config_dict:
  assumes "map_option (load_file h) f = Some (Parsed (YMapAt l d))"
  shows "image_config h f =
    (case dict_get ''image_name'' d of None \<Rightarrow> YStr ''ubuntu'' | Some v \<Rightarrow> v,
     case dict_get ''image_tag'' d of None \<Rightarrow> YStr ''24.04'' | Some v \<Rightarrow> v)"
  using assms by (auto simp: image_config_def read_image_config_def)

lemma env_lines_image:
  "''IMAGE_NAME='' @ format_value h (fst (image_config h f)) \<in> set (env_lines h f sfx)"
  "''IMAGE_TAG='' @ format_value h (snd (image_config h f)) \<in> set (env_lines h f sfx)"
  by (simp_all add: env_lines_def Let_def case_prod_beta split: option.splits)

lemma generate_env_file:
  "files (generate_env h ep pp sfx w) ep
     = Some (Text (join newline (env_lines h (files w pp) sfx) @ newline))"
  by (simp add: generate_env_def Let_def print_def write_text_def case_prod_beta)

text \<open>
  C8. When the merged packages file cannot be read as a mapping (it is missing,
  cannot be opened, is not valid YAML, or its document is not a mapping, with
  or without anchor), the
  emitted lines hold \<open>IMAGE_NAME=ubuntu\<close> and \<open>IMAGE_TAG=24.04\<close>. When it is a
  mapping without \<open>image_name\<close>, they hold \<open>IMAGE_NAME=ubuntu\<close>; without
  \<open>image_tag\<close>, they hold \<open>IMAGE_TAG=24.04\<close>. In every case \<open>generate_env\<close>
  goes on and writes the lines to the environment file.
\<close>

theorem env_image_fallback:
  "((\<forall>l d. map_option (load_file h) f \<noteq> Some (Parsed (YMapAt l d))) \<longrightarrow>
       ''IMAGE_NAME=ubuntu'' \<in> set (env_lines h f sfx)
       \<and> ''IMAGE_TAG=24.04'' \<in> set (env_lines h f sfx))
   \<and> (map_option (load_file h) f = Some (Parsed (YMapAt l d)) \<longrightarrow>
       dict_get ''image_name'' d = None \<longrightarrow> ''IMAGE_NAME=ubuntu'' \<in> set (env_lines h f sfx))
   \<and> (map_option (load_file h) f = Some (Parsed (YMapAt l d)) \<longrightarrow>
       dict_get ''image_tag'' d = None \<longrightarrow> ''IMAGE_TAG=24.04'' \<in> set (env_lines h f sfx))
   \<and> files (generate_env h ep pp sfx w) ep
       = Some (Text (join newline (env_lines h (files w pp) sfx) @ newline))"
proof (intro conjI impI)
  assume "\<forall>l d. map_option (load_file h) f \<noteq> Some (Parsed (YMapAt l d))"
  then have cfg: "image_config h f = (YStr ''ubuntu'', YStr ''24.04'')"
    by (rule image_config_unreadable)
  from env_lines_image(1) [of h f sfx] cfg
  show "''IMAGE_NAME=ubuntu'' \<in> set (env_lines h f sfx)" by simp
  from env_lines_image(2) [of h f sfx] cfg
  show "''IMAGE_TAG=24.04'' \<in> set (env_lines h f sfx)" by simp
next
  assume "map_option (load_file h) f = Some (Parsed (YMapAt l d))"
    and "dict_get ''image_name'' d = None"
  then have "fst (image_config h f) = YStr ''ubuntu''"
    by (simp add: image_config_dict)
  with env_lines_image(1) [of h f sfx]
  show "''IMAGE_NAME=ubuntu'' \<in> set (env_lines h f sfx)" by simp
next
  assume "map_option (load_file h) f = Some (Parsed (YMapAt l d))"
    and "dict_get ''image_tag'' d = None"
  then have "snd (image_config h f) = YStr ''24.04''"
    by (simp add: image_config_dict)
  with env_lines_image(2) [of h f sfx]
  show "''IMAGE_TAG=24.04'' \<in> set (env_lines h f sfx)" by simp
next
  show "files (generate_env h ep pp sfx w) ep
       = Some (Text (join newline (env_lines h (files w pp) sfx) @ newline))"
    by (rule generate_env_file)
qed

theorem env_image_fallback_witness:
  "''IMAGE_NAME=ubuntu'' \<in> set (env_lines alice_host None [])
   \<and> ''IMAGE_TAG=24.04'' \<in> set (env_lines alice_host None [])
   \<and> ''IMAGE_NAME=ubuntu'' \<in> set (env_lines alice_host (Some (Yaml (Invalid ''bad''))) [])
   \<and> ''IMAGE_NAME=ubuntu'' \<in> set (env_lines alice_host (Some (Yaml (Parsed (YSeq [])))) [])
   \<and> ''IMAGE_NAME=ubuntu'' \<in> set (env_lines alice_host
         (Some (Yaml (Parsed (YMap [(SStr ''image_tag'', YStr ''12'')])))) [])
   \<and> ''IMAGE_TAG=24.04'' \<in> set (env_lines alice_host
         (Some (Yaml (Parsed (YMap [(SStr ''image_name'', YStr ''debian'')])))) [])"
  using env_image_fallback [where h = alice_host and f = None and sfx = "[]"]
    env_image_fallback [where h = alice_host and f = "Some (Yaml (Invalid ''bad''))" and sfx = "[]"]
    env_image_fallback [where h = alice_host and f = "Some (Yaml (Parsed (YSeq [])))" and sfx = "[]"]
    env_image_fallback [where h = alice_host and sfx = "[]"
      and f = "Some (Yaml (Parsed (YMap [(SStr ''image_tag'', YStr ''12'')])))"
      and d = "[(SStr ''image_tag'', YStr ''12'')]" and l = None]
    env_image_fallback [where h = alice_host and sfx = "[]"
      and f = "Some (Yaml (Parsed (YMap [(SStr ''image_name'', YStr ''debian'')])))"
      and d = "[(SStr ''image_name'', YStr ''debian'')]" and l = None]
  by (simp add: dict_get_def)

lemma proxy_line_prefix: "l \<in> set (proxy_line h v) \<Longrightarrow> prefix v l"
  by (auto simp: proxy_line_def split: option.splits if_splits)

lemma proxy_names_head: "v \<in> set proxy_names \<Longrightarrow> v \<noteq> [] \<and> hd v \<noteq> CHR ''S''"
  by (auto simp: proxy_names_def)

lemma proxy_lines_not_service:
  assumes "l \<in> set (proxy_lines h)"
  shows "\<not> prefix ''S'' l"
proof
  assume S: "prefix ''S'' l"
  from assms obtain v where v: "v \<in> set proxy_names" and "l \<in> set (proxy_line h v)"
    by (auto simp: proxy_lines_def)
  then have "prefix v l" by (simp add: proxy_line_prefix)
  then obtain r where "l = v @ r" by (auto simp: prefix_def)
  with proxy_names_head [OF v] have "hd l \<noteq> CHR ''S''" by simp
  moreover from S have "hd l = CHR ''S''" by (auto simp: prefix_def)
  ultimately show False by simp
qed

lemma filter_proxy_lines: "filter (prefix (CHR ''S'' # p)) (proxy_lines h) = []"
proof -
  have "\<not> prefix (CHR ''S'' # p) l" if "l \<in> set (proxy_lines h)" for l
  proof
    assume "prefix (CHR ''S'' # p) l"
    then have "prefix ''S'' l" by (cases l) auto
    with proxy_lines_not_service [OF that] show False by simp
  qed
  then show ?thesis by (simp add: filter_empty_conv)
qed

text \<open>The lines of the file: the proxy block, the fixed block, the git line.\<close>

lemma env_lines_shape:
  "env_lines h f sfx =
     proxy_block h @
     [''SHELL='' @ environ_get h ''SHELL'' ''/bin/bash'',
      ''USER='' @ user_name h,
      ''USER_UID='' @ str_of_int (fst (get_uid_gid h)),
      ''USER_GID='' @ str_of_int (snd (get_uid_gid h)),
      [],
      ''IMAGE_NAME='' @ format_value h (fst (image_config h f)),
      ''IMAGE_TAG='' @ format_value h (snd (image_config h f)),
      [],
      ''BUILD_TARGET=devenv'',
      [],
      ''SERVICE_PREPARE='' @ user_name h @ ''-devcontainer-prepare''
         @ (if sfx \<noteq> [] then ''-'' @ sfx else []),
      ''SERVICE_MAIN='' @ user_name h @ ''-devcontainer''
         @ (if sfx \<noteq> [] then ''-'' @ sfx else [])] @
     [[],
      ''VOLUME_LOCAL_SHARE='' @ user_name h @ ''-devcontainer-local-share''
         @ (if sfx \<noteq> [] then ''-'' @ sfx else []),
      ''VOLUME_CONFIG='' @ user_name h @ ''-devcontainer-config''
         @ (if sfx \<noteq> [] then ''-'' @ sfx else []),
      ''VOLUME_CACHE='' @ user_name h @ ''-devcontainer-cache''
         @ (if sfx \<noteq> [] then ''-'' @ sfx else []),
      ''VOLUME_VSCODE_EXT='' @ user_name h @ ''-vscode-extensions''
         @ (if sfx \<noteq> [] then ''-'' @ sfx else []),
      ''VOLUME_VSCODE_EXT_INSIDERS='' @ user_name h @ ''-vscode-extensions-insiders''
         @ (if sfx \<noteq> [] then ''-'' @ sfx else []),
      [],
      ''HOME='' @ home_dir h] @
     git_block h"
  unfolding env_lines_def Let_def case_prod_beta proxy_block_def git_block_def
  by (cases "get_git_root h") simp_all

lemma filter_blocks:
  "filter (prefix (CHR ''S'' # p)) (proxy_block h) = []"
  "filter (prefix (CHR ''S'' # p)) (git_block h) = []"
  by (simp_all add: proxy_block_def git_block_def filter_proxy_lines split: option.splits)

lemma service_lines:
  "filter (prefix ''SERVICE_PREPARE='') (env_lines h f sfx)
     = [''SERVICE_PREPARE='' @ user_name h @ ''-devcontainer-prepare''
          @ (if sfx \<noteq> [] then ''-'' @ sfx else [])]"
  "filter (prefix ''SERVICE_MAIN='') (env_lines h f sfx)
     = [''SERVICE_MAIN='' @ user_name h @ ''-devcontainer''
          @ (if sfx \<noteq> [] then ''-'' @ sfx else [])]"
  unfolding env_lines_shape filter_append filter_blocks
  by simp_all

text \<open>
  C9. For every host and suffix the emitted lines hold exactly one line that
  starts with \<open>SERVICE_PREPARE=\<close> and one that starts with \<open>SERVICE_MAIN=\<close>: the
  user name, then \<open>-devcontainer-prepare\<close> or \<open>-devcontainer\<close>, then nothing for
  the empty suffix, and a hyphen and the suffix otherwise. With \<open>USER=alice\<close>
  these are the four lines of the claim.
\<close>

theorem service_names:
  "filter (prefix ''SERVICE_PREPARE='') (env_lines h f sfx)
     = [''SERVICE_PREPARE='' @ user_name h @ ''-devcontainer-prepare''
          @ (if sfx = [] then [] else ''-'' @ sfx)]
   \<and> filter (prefix ''SERVICE_MAIN='') (env_lines h f sfx)
     = [''SERVICE_MAIN='' @ user_name h @ ''-devcontainer''
          @ (if sfx = [] then [] else ''-'' @ sfx)]
   \<and> (environ h ''USER'' = Some ''alice'' \<longrightarrow>
        filter (prefix ''SERVICE_PREPARE='') (env_lines h f [])
          = [''SERVICE_PREPARE=alice-devcontainer-prepare'']
        \<and> filter (prefix ''SERVICE_MAIN='') (env_lines h f [])
          = [''SERVICE_MAIN=alice-devcontainer'']
        \<and> filter (prefix ''SERVICE_PREPARE='') (env_lines h f ''dev'')
          = [''SERVICE_PREPARE=alice-devcontainer-prepare-dev'']
        \<and> filter (prefix ''SERVICE_MAIN='') (env_lines h f ''dev'')
          = [''SERVICE_MAIN=alice-devcontainer-dev''])"
proof (intro conjI impI)
  show "filter (prefix ''SERVICE_PREPARE='') (env_lines h f sfx)
     = [''SERVICE_PREPARE='' @ user_name h @ ''-devcontainer-prepare''
          @ (if sfx = [] then [] else ''-'' @ sfx)]"
    by (simp add: service_lines(1))
  show "filter (prefix ''SERVICE_MAIN='') (env_lines h f sfx)
     = [''SERVICE_MAIN='' @ user_name h @ ''-devcontainer''
          @ (if sfx = [] then [] else ''-'' @ sfx)]"
    by (simp add: service_lines(2))
next
  assume "environ h ''USER'' = Some ''alice''"
  then have alice: "user_name h = ''alice''"
    by (simp add: user_name_def environ_get_def)
  from alice show "filter (prefix ''SERVICE_PREPARE='') (env_lines h f [])
          = [''SERVICE_PREPARE=alice-devcontainer-prepare'']"
    by (simp add: service_lines(1))
  from alice show "filter (prefix ''SERVICE_MAIN='') (env_lines h f [])
          = [''SERVICE_MAIN=alice-devcontainer'']"
    by (simp add: service_lines(2))
  from alice show "filter (prefix ''SERVICE_PREPARE='') (env_lines h f ''dev'')
          = [''SERVICE_PREPARE=alice-devcontainer-prepare-dev'']"
    by (simp add: service_lines(1))
  from alice show "filter (prefix ''SERVICE_MAIN='') (env_lines h f ''dev'')
          = [''SERVICE_MAIN=alice-devcontainer-dev'']"
    by (simp add: service_lines(2))
qed

theorem service_names_witness:
  "filter (prefix ''SERVICE_PREPARE='') (env_lines alice_host None [])
     = [''SERVICE_PREPARE=alice-devcontainer-prepare'']
   \<and> filter (prefix ''SERVICE_MAIN='') (env_lines alice_host None [])
     = [''SERVICE_MAIN=alice-devcontainer'']
   \<and> filter (prefix ''SERVICE_PREPARE='') (env_lines alice_host None ''dev'')
     = [''SERVICE_PREPARE=alice-devcontainer-prepare-dev'']
   \<and> filter (prefix ''SERVICE_MAIN='') (env_lines alice_host None ''dev'')
     = [''SERVICE_MAIN=alice-devcontainer-dev'']"
proof -
  have "environ alice_host ''USER'' = Some ''alice''"
    by (simp add: alice_host_def)
  with service_names [where h = alice_host and f = None and sfx = "[]"]
  show ?thesis by blast
qed

section \<open>The pipeline\<close>

text \<open>What each step reads and writes in the file system.\<close>

lemma print_fields:
  "files (print l w) = files w" "is_dir (print l w) = is_dir w"
  "files (print_all ls w) = files w" "is_dir (print_all ls w) = is_dir w"
  by (simp_all add: print_def print_all_def)

lemma validate_host_fields:
  "files (snd (validate_host h w)) = files w" "is_dir (snd (validate_host h w)) = is_dir w"
  by (simp_all add: validate_host_def Let_def case_prod_beta print_fields)

lemma validate_host_fst:
  "fst (validate_host h w)
     = (\<not> (snd (host_ptrace (sysinfo h)) \<or> snd (host_docker (sysinfo h))))"
  by (simp add: validate_host_def Let_def case_prod_beta)

lemma validate_yaml_files: "files (snd (validate_yaml h p v w)) = files w"
  by (simp add: validate_yaml_def Let_def print_fields
      split: option.splits yaml_load.splits yaml.splits sum.splits prod.splits)

lemma validate_yaml_fst:
  "fst (validate_yaml h p v w) =
     (case files w p of
        None \<Rightarrow> Inr False
      | Some f \<Rightarrow>
         (case load_file h f of
            Unreadable \<Rightarrow> Inl OSError
          | Invalid msg \<Rightarrow> Inr False
          | Parsed (YMapAt l data) \<Rightarrow>
             (case v data (snd p) of Inl e \<Rightarrow> Inl e | Inr (out, ok) \<Rightarrow> Inr ok)
          | Parsed _ \<Rightarrow> Inr False))"
  by (simp add: validate_yaml_def Let_def print_fields
      split: option.splits yaml_load.splits yaml.splits sum.splits prod.splits)

lemma create_files:
  "files (create_compose_custom p w) = (files w)(p \<mapsto> Yaml (Parsed compose_custom_content))"
  "files (create_packages_custom p w) = (files w)(p \<mapsto> Yaml (Parsed packages_custom_content))"
  by (simp_all add: create_compose_custom_def create_packages_custom_def write_yaml_def
      print_fields print_def)

lemma check_fields_missing:
  "field \<in> set fs \<Longrightarrow> \<not> has_key field data \<Longrightarrow> check_fields data filename fs \<noteq> None"
  by (induction fs) (auto simp: has_key_def dict_get_def split: option.splits)

lemma validate_packages_untagged:
  assumes "\<not> has_key ''image_tag'' data"
  shows "\<exists>out. validate_packages data filename = Inr (out, False)"
proof -
  from assms have "check_fields data filename [''image_name'', ''image_tag''] \<noteq> None"
    by (intro check_fields_missing [where field = "''image_tag''"]) simp_all
  then show ?thesis
    by (auto simp: validate_packages_def)
qed

lemma or_return_1_stops:
  assumes "files (snd c) (dd, ''packages.yml'') = files w (dd, ''packages.yml'')"
    and "files (snd c) (dd, ''.env'') = files w (dd, ''.env'')"
    and "fst c = Inr True \<Longrightarrow> stops_early w dd (rest (snd c))"
  shows "stops_early w dd (or_return_1 c rest)"
proof (cases c)
  case (Pair r w')
  show ?thesis
  proof (cases r)
    case (Inl e)
    with Pair assms(1,2) show ?thesis
      by (simp add: or_return_1_def stops_early_def exit_status_def)
  next
    case (Inr ok)
    with Pair assms show ?thesis
      by (cases ok) (simp_all add: or_return_1_def stops_early_def exit_status_def)
  qed
qed

lemma packages_stage_stops:
  assumes present: "files w5 (dd, ''packages.default.yml'') = Some f"
    and doc: "load_file h f = Parsed (YMapAt l data)"
    and tag: "\<not> has_key ''image_tag'' data"
    and same: "files w5 (dd, ''packages.yml'') = files w (dd, ''packages.yml'')"
      "files w5 (dd, ''.env'') = files w (dd, ''.env'')"
  shows "stops_early w dd
     (or_return_1 (validate_yaml h (dd, ''packages.default.yml'') validate_packages w5) rest)"
proof (rule or_return_1_stops)
  from same show "files (snd (validate_yaml h (dd, ''packages.default.yml'') validate_packages w5))
      (dd, ''packages.yml'') = files w (dd, ''packages.yml'')"
    and "files (snd (validate_yaml h (dd, ''packages.default.yml'') validate_packages w5))
      (dd, ''.env'') = files w (dd, ''.env'')"
    by (simp_all add: validate_yaml_files)
next
  from validate_packages_untagged [OF tag] obtain out
    where "validate_packages data ''packages.default.yml'' = Inr (out, False)" by blast
  with present doc
  have "fst (validate_yaml h (dd, ''packages.default.yml'') validate_packages w5) = Inr False"
    by (simp add: validate_yaml_fst)
  moreover assume "fst (validate_yaml h (dd, ''packages.default.yml'') validate_packages w5) = Inr True"
  ultimately show "stops_early w dd
      (rest (snd (validate_yaml h (dd, ''packages.default.yml'') validate_packages w5)))"
    by simp
qed


lemma main_stops_early:
  assumes present: "files w (devcontainer_dir a @ ''/docker'', ''packages.default.yml'') = Some f"
    and doc: "load_file h f = Parsed (YMapAt l data)"
    and tag: "\<not> has_key ''image_tag'' data"
  shows "stops_early w (devcontainer_dir a @ ''/docker'') (main h a w)"
proof (cases "is_dir w (devcontainer_dir a @ ''/docker'')")
  case False
  then show ?thesis
    by (simp add: main_def Let_def stops_early_def exit_status_def print_fields)
next
  case True
  let ?dd = "devcontainer_dir a @ ''/docker''"
  let ?w2 = "print (log ''Validating Docker configuration...'' False) (snd (validate_host h w))"
  have w2: "files ?w2 = files w"
    by (simp add: print_fields validate_host_fields)
  have "stops_early w ?dd
     (or_return_1 (validate_yaml h (?dd, ''docker-compose.default.yml'') validate_compose ?w2)
        (\<lambda>w3. or_return_1
          (if path_exists (?dd, ''docker-compose.custom.yml'') w3
           then validate_yaml h (?dd, ''docker-compose.custom.yml'') validate_compose_custom w3
           else (Inr True, create_compose_custom (?dd, ''docker-compose.custom.yml'') w3))
          (\<lambda>w4. let w5 = print (log ''Validating package configuration...'' False) w4 in
             or_return_1 (validate_yaml h (?dd, ''packages.default.yml'') validate_packages w5)
               (\<lambda>w6. or_return_1
                  (if path_exists (?dd, ''packages.custom.yml'') w6
                   then validate_yaml h (?dd, ''packages.custom.yml'') validate_packages_custom w6
                   else (Inr True, create_packages_custom (?dd, ''packages.custom.yml'') w6))
                  (merge_and_emit h a ?dd)))))"
    (is "stops_early w ?dd (or_return_1 ?A ?rest)")
  proof (rule or_return_1_stops)
    show "files (snd ?A) (?dd, ''packages.yml'') = files w (?dd, ''packages.yml'')"
      and "files (snd ?A) (?dd, ''.env'') = files w (?dd, ''.env'')"
      by (simp_all add: validate_yaml_files w2)
  next
    let ?w3 = "snd ?A"
    have w3: "files ?w3 = files w" by (simp add: validate_yaml_files w2)
    let ?B = "if path_exists (?dd, ''docker-compose.custom.yml'') ?w3
           then validate_yaml h (?dd, ''docker-compose.custom.yml'') validate_compose_custom ?w3
           else (Inr True, create_compose_custom (?dd, ''docker-compose.custom.yml'') ?w3)"
    have B: "files (snd ?B) (?dd, n) = files w (?dd, n)" if "n \<noteq> ''docker-compose.custom.yml''" for n
      using that by (simp add: validate_yaml_files create_files print_fields validate_host_fields)
    show "stops_early w ?dd (?rest ?w3)"
    proof (rule or_return_1_stops)
      show "files (snd ?B) (?dd, ''packages.yml'') = files w (?dd, ''packages.yml'')"
        and "files (snd ?B) (?dd, ''.env'') = files w (?dd, ''.env'')"
        by (simp_all add: B)
    next
      let ?w5 = "print (log ''Validating package configuration...'' False) (snd ?B)"
      have "files ?w5 (?dd, ''packages.default.yml'') = Some f"
        and "files ?w5 (?dd, ''packages.yml'') = files w (?dd, ''packages.yml'')"
        and "files ?w5 (?dd, ''.env'') = files w (?dd, ''.env'')"
        by (simp_all add: print_fields B present)
      from packages_stage_stops [OF this(1) doc tag this(2,3)]
      show "stops_early w ?dd
        (let w5 = print (log ''Validating package configuration...'' False) (snd ?B) in
             or_return_1 (validate_yaml h (?dd, ''packages.default.yml'') validate_packages w5)
               (\<lambda>w6. or_return_1
                  (if path_exists (?dd, ''packages.custom.yml'') w6
                   then validate_yaml h (?dd, ''packages.custom.yml'') validate_packages_custom w6
                   else (Inr True, create_packages_custom (?dd, ''packages.custom.yml'') w6))
                  (merge_and_emit h a ?dd)))"
        by (simp add: Let_def)
    qed
  qed
  with True show ?thesis
    by (simp add: main_def Let_def)
qed

text \<open>
  C6. Let the packages default file in the docker directory load as a mapping
  (with or without anchor) without the key \<open>image_tag\<close>. Then the packages validator fails on it; the
  process exits with status 1; \<open>main\<close> does not return 0, and returns 1 unless
  an exception of an earlier validator left it; and the run leaves
  \<open>packages.yml\<close> and \<open>.env\<close> as they were, so the merge and the environment
  emitter were not reached.
\<close>

theorem untagged_packages_halt:
  assumes "files w (devcontainer_dir a @ ''/docker'', ''packages.default.yml'') = Some f"
    and "load_file h f = Parsed (YMapAt l data)"
    and "\<not> has_key ''image_tag'' data"
  shows "fails (validate_packages data ''packages.default.yml'')
    \<and> exit_status (fst (main h a w)) = 1
    \<and> fst (main h a w) \<noteq> Inr 0
    \<and> ((\<forall>e. fst (main h a w) \<noteq> Inl e) \<longrightarrow> fst (main h a w) = Inr 1)
    \<and> files (snd (main h a w)) (devcontainer_dir a @ ''/docker'', ''packages.yml'')
        = files w (devcontainer_dir a @ ''/docker'', ''packages.yml'')
    \<and> files (snd (main h a w)) (devcontainer_dir a @ ''/docker'', ''.env'')
        = files w (devcontainer_dir a @ ''/docker'', ''.env'')"
proof -
  from validate_packages_untagged [OF assms(3)] obtain out
    where "validate_packages data ''packages.default.yml'' = Inr (out, False)" by blast
  then have "fails (validate_packages data ''packages.default.yml'')"
    by (simp add: fails_def)
  moreover from main_stops_early [OF assms]
  have "stops_early w (devcontainer_dir a @ ''/docker'') (main h a w)" .
  ultimately show ?thesis
    by (auto simp: stops_early_def split: sum.splits)
qed

lemma untagged_world_facts:
  "files untagged_world (devcontainer_dir alice_args @ ''/docker'', ''packages.default.yml'')
     = Some (Yaml (Parsed (YMap [(SStr ''image_name'', YStr ''debian''),
            (SStr ''base'', YMap [(SStr ''packages'', YSeq [YStr ''git''])])])))"
  "files untagged_world (devcontainer_dir alice_args @ ''/docker'', ''packages.yml'') = None"
  "files untagged_world (devcontainer_dir alice_args @ ''/docker'', ''.env'') = None"
  by (simp_all add: untagged_world_def alice_world_def alice_args_def)

theorem untagged_packages_halt_witness:
  "fails (validate_packages [(SStr ''image_name'', YStr ''debian''),
            (SStr ''base'', YMap [(SStr ''packages'', YSeq [YStr ''git''])])] ''packages.default.yml'')
   \<and> exit_status (fst (main alice_host alice_args untagged_world)) = 1
   \<and> files (snd (main alice_host alice_args untagged_world))
        (devcontainer_dir alice_args @ ''/docker'', ''packages.yml'') = None
   \<and> files (snd (main alice_host alice_args untagged_world))
        (devcontainer_dir alice_args @ ''/docker'', ''.env'') = None"
  using untagged_packages_halt [where h = alice_host and a = alice_args and w = untagged_world
      and data = "[(SStr ''image_name'', YStr ''debian''),
            (SStr ''base'', YMap [(SStr ''packages'', YSeq [YStr ''git''])])]" and l = None,
      OF untagged_world_facts(1)]
  by (simp add: untagged_world_facts(2,3) has_key_def)

section \<open>A run without docker\<close>

lemma alice_docker: "fst (validate_host alice_host w) = False"
  by (simp add: validate_host_def Let_def case_prod_beta alice_host_def alice_sysinfo_def
      host_docker_def)

lemma alice_merged:
  "merge_documents (Parsed packages_default_doc) (Some (Parsed packages_custom_content))
     = Inr (YMap [(SStr ''image_name'', YStr ''debian''), (SStr ''image_tag'', YStr ''12''),
           (SStr ''base'', YMap [(SStr ''packages'', YSeq [YStr ''git''])]),
           (SStr ''devenv'', YMap [(SStr ''packages'', YSeq [])])])"
  by (simp add: merge_documents_def merge_section_def merge_field_def extend_field_def
      changed_at_def packages_default_doc_def packages_custom_content_def has_key_def
      dict_get_def)


lemma merge_packages_fields:
  assumes "files w dp = Some df"
    and "merge_documents (load_file h df) (map_option (load_file h) (files w cp)) = Inr m"
  shows "fst (merge_packages h dp cp op w) = Inr ()"
    and "files (snd (merge_packages h dp cp op w)) = (files w)(op \<mapsto> Yaml (Parsed m))"
  using assms
  by (simp_all add: merge_packages_def Let_def print_fields write_yaml_def print_def)

lemma or_return_1_proj:
  "or_return_1 c rest =
     (case fst c of
        Inl e \<Rightarrow> (Inl e, snd c)
      | Inr ok \<Rightarrow> if ok then rest (snd c) else (Inr 1, snd c))"
  by (cases c) (simp add: or_return_1_def split: sum.splits)

lemma merge_and_emit_proj:
  assumes "fst (merge_packages h (dd, ''packages.default.yml'') (dd, ''packages.custom.yml'')
      (dd, ''packages.yml'') w) = Inr ()"
  shows "fst (merge_and_emit h a dd w) = Inr 0"
    and "files (snd (merge_and_emit h a dd w)) =
      files (generate_env h (dd, ''.env'') (dd, ''packages.yml'') (suffix_arg a)
        (unlink (dd, ''.env'') (print (log ''Initializing environment...'' False)
          (touch (home_dir h, ''.gitconfig'') (touch (home_dir h, ''.netrc'')
            (snd (merge_packages h (dd, ''packages.default.yml'') (dd, ''packages.custom.yml'')
              (dd, ''packages.yml'') w)))))))"
  using assms
  by (simp_all add: merge_and_emit_def Let_def case_prod_beta print_fields)

lemma alice_files:
  "files alice_world (''.devcontainer/docker'', ''docker-compose.default.yml'')
     = Some (Yaml (Parsed compose_default_doc))"
  "files alice_world (''.devcontainer/docker'', ''packages.default.yml'')
     = Some (Yaml (Parsed packages_default_doc))"
  "files alice_world (''.devcontainer/docker'', ''docker-compose.custom.yml'') = None"
  "files alice_world (''.devcontainer/docker'', ''packages.custom.yml'') = None"
  "is_dir alice_world ''.devcontainer/docker''"
  by (simp_all add: alice_world_def)

lemma generate_env_files:
  "files (generate_env h ep pp sfx w)
     = (files w)(ep \<mapsto> Text (join newline (env_lines h (files w pp) sfx) @ newline))"
  by (simp add: generate_env_def Let_def print_def write_text_def case_prod_beta)

lemma touch_files:
  "files (touch p w) = (if files w p = None then (files w)(p \<mapsto> Text []) else files w)"
  by (simp add: touch_def path_exists_def write_text_def)

lemma unlink_files: "files (unlink p w) = (files w)(p := None)"
  by (simp add: unlink_def)


lemma alice_checks:
  "validate_compose [(SStr ''services'', YMap [(SStr ''devcontainer'',
       YMap [(SStr ''image'', YStr ''devenv'')])])] n = Inr ([], True)"
  "validate_packages [(SStr ''image_name'', YStr ''debian''), (SStr ''image_tag'', YStr ''12''),
       (SStr ''base'', YMap [(SStr ''packages'', YSeq [YStr ''git''])])] n = Inr ([], True)"
  by (simp_all add: validate_compose_def validate_packages_def has_key_def dict_get_def)

lemma alice_main_tail:
  "main alice_host alice_args alice_world
     = merge_and_emit alice_host alice_args ''.devcontainer/docker''
        (create_packages_custom (''.devcontainer/docker'', ''packages.custom.yml'')
          (snd (validate_yaml alice_host (''.devcontainer/docker'', ''packages.default.yml'')
            validate_packages
            (print (log ''Validating package configuration...'' False)
              (create_compose_custom (''.devcontainer/docker'', ''docker-compose.custom.yml'')
                (snd (validate_yaml alice_host
                  (''.devcontainer/docker'', ''docker-compose.default.yml'') validate_compose
                  (print (log ''Validating Docker configuration...'' False)
                    (snd (validate_host alice_host alice_world))))))))))"
  by (simp add: main_def Let_def alice_args_def or_return_1_proj validate_yaml_fst
      validate_yaml_files print_fields validate_host_fields create_files path_exists_def
      alice_files compose_default_doc_def packages_default_doc_def alice_checks)


text \<open>
  C1, at a concrete run. On the host of alice docker is not available and
  \<open>validate_host\<close> returns \<open>False\<close>. With the two default files well-formed,
  \<open>main\<close> still returns 0, the process exits with status 0, and the run writes
  \<open>packages.yml\<close> and \<open>.env\<close>.
\<close>

theorem main_ignores_docker:
  "\<not> docker_available (sysinfo alice_host)
   \<and> fst (validate_host alice_host alice_world) = False
   \<and> fst (main alice_host alice_args alice_world) = Inr 0
   \<and> exit_status (fst (main alice_host alice_args alice_world)) = 0
   \<and> files (snd (main alice_host alice_args alice_world)) (''.devcontainer/docker'', ''packages.yml'')
       = Some (Yaml (Parsed alice_merged_doc))
   \<and> (\<exists>txt. files (snd (main alice_host alice_args alice_world)) (''.devcontainer/docker'', ''.env'')
       = Some (Text txt))"
proof -
  let ?dd = "''.devcontainer/docker''"
  let ?w = "create_packages_custom (?dd, ''packages.custom.yml'')
          (snd (validate_yaml alice_host (?dd, ''packages.default.yml'')
            validate_packages
            (print (log ''Validating package configuration...'' False)
              (create_compose_custom (?dd, ''docker-compose.custom.yml'')
                (snd (validate_yaml alice_host
                  (?dd, ''docker-compose.default.yml'') validate_compose
                  (print (log ''Validating Docker configuration...'' False)
                    (snd (validate_host alice_host alice_world)))))))))"
  let ?m = "merge_packages alice_host (?dd, ''packages.default.yml'') (?dd, ''packages.custom.yml'')
      (?dd, ''packages.yml'') ?w"
  have tail: "main alice_host alice_args alice_world = merge_and_emit alice_host alice_args ?dd ?w"
    by (rule alice_main_tail)
  have w: "files ?w = (files alice_world)
      ((?dd, ''docker-compose.custom.yml'') \<mapsto> Yaml (Parsed compose_custom_content),
       (?dd, ''packages.custom.yml'') \<mapsto> Yaml (Parsed packages_custom_content))"
    by (simp add: create_files validate_yaml_files print_fields validate_host_fields)
  have default: "files ?w (?dd, ''packages.default.yml'') = Some (Yaml (Parsed packages_default_doc))"
    by (simp add: w alice_files)
  have custom: "files ?w (?dd, ''packages.custom.yml'') = Some (Yaml (Parsed packages_custom_content))"
    by (simp add: w)
  have merged: "merge_documents (load_file alice_host (Yaml (Parsed packages_default_doc)))
      (map_option (load_file alice_host) (files ?w (?dd, ''packages.custom.yml'')))
        = Inr alice_merged_doc"
    unfolding custom by (simp add: alice_merged alice_merged_doc_def)
  note m = merge_packages_fields [OF default merged, where op = "(?dd, ''packages.yml'')"]
  note e = merge_and_emit_proj [OF m(1), where a = alice_args]
  have result: "fst (main alice_host alice_args alice_world) = Inr 0"
    unfolding tail by (rule e(1))
  have "files (snd (main alice_host alice_args alice_world)) (?dd, ''packages.yml'')
       = Some (Yaml (Parsed alice_merged_doc))"
    unfolding tail e(2)
    by (simp add: generate_env_files unlink_files print_fields touch_files m(2))
  moreover have "\<exists>txt. files (snd (main alice_host alice_args alice_world)) (?dd, ''.env'')
       = Some (Text txt)"
    unfolding tail e(2) by (simp add: generate_env_files)
  moreover have "\<not> docker_available (sysinfo alice_host)"
    by (simp add: alice_host_def alice_sysinfo_def)
  moreover note alice_docker [of alice_world] result
  ultimately show ?thesis
    by (simp add: exit_status_def)
qed

text \<open>The run of C6 on the example returns 1; no exception leaves it.\<close>

lemma untagged_returns_1: "fst (main alice_host alice_args untagged_world) = Inr 1"
  by (simp add: main_def Let_def alice_args_def or_return_1_proj validate_yaml_fst
      validate_yaml_files print_fields validate_host_fields create_files path_exists_def
      untagged_world_def alice_files compose_default_doc_def alice_checks
      validate_packages_def has_key_def dict_get_def)

section \<open>A run with a custom key that is not a string\<close>

text \<open>
  C7, at a concrete document. The packages custom file holds the unknown key
  \<open>foo\<close> beside \<open>base\<close>, and the int key 1. Sorting and joining the unknown keys
  raises TypeError: the validator returns nothing, so it does not pass, and
  prints no warning. \<open>validate_yaml\<close> does not catch the exception; it leaves
  \<open>main\<close>, and \<open>packages.yml\<close> is not written.
\<close>

theorem validate_packages_custom_raises:
  "has_key ''foo'' mixed_keys
   \<and> validate_packages_custom mixed_keys ''packages.custom.yml'' = Inl TypeError
   \<and> \<not> passes (validate_packages_custom mixed_keys ''packages.custom.yml'')
   \<and> warnings (validate_packages_custom mixed_keys ''packages.custom.yml'') = []
   \<and> fst (main alice_host alice_args mixed_keys_world) = Inl TypeError
   \<and> files (snd (main alice_host alice_args mixed_keys_world))
        (''.devcontainer/docker'', ''packages.yml'') = None"
proof -
  have raises: "validate_packages_custom mixed_keys n = Inl TypeError" for n
    by (simp add: validate_packages_custom_def unknown_keys_def packages_allowed_def
        join_sorted_def mixed_keys_def)
  have custom: "files mixed_keys_world (''.devcontainer/docker'', ''packages.custom.yml'')
      = Some (Yaml (Parsed (YMap mixed_keys)))"
    and others: "files mixed_keys_world (''.devcontainer/docker'', ''docker-compose.default.yml'')
      = Some (Yaml (Parsed compose_default_doc))"
      "files mixed_keys_world (''.devcontainer/docker'', ''packages.default.yml'')
      = Some (Yaml (Parsed packages_default_doc))"
      "files mixed_keys_world (''.devcontainer/docker'', ''docker-compose.custom.yml'') = None"
      "files mixed_keys_world (''.devcontainer/docker'', ''packages.yml'') = None"
      "is_dir mixed_keys_world ''.devcontainer/docker''"
    by (simp_all add: mixed_keys_world_def alice_world_def)
  have run: "main alice_host alice_args mixed_keys_world
     = (Inl TypeError,
        snd (validate_yaml alice_host (''.devcontainer/docker'', ''packages.custom.yml'')
          validate_packages_custom
          (snd (validate_yaml alice_host (''.devcontainer/docker'', ''packages.default.yml'')
            validate_packages
            (print (log ''Validating package configuration...'' False)
              (create_compose_custom (''.devcontainer/docker'', ''docker-compose.custom.yml'')
                (snd (validate_yaml alice_host
                  (''.devcontainer/docker'', ''docker-compose.default.yml'') validate_compose
                  (print (log ''Validating Docker configuration...'' False)
                    (snd (validate_host alice_host mixed_keys_world)))))))))))"
    by (simp add: main_def Let_def alice_args_def or_return_1_proj validate_yaml_fst
        validate_yaml_files print_fields validate_host_fields create_files path_exists_def
        custom others compose_default_doc_def packages_default_doc_def alice_checks raises)
  have "files (snd (main alice_host alice_args mixed_keys_world))
        (''.devcontainer/docker'', ''packages.yml'') = None"
    unfolding run
    by (simp add: validate_yaml_files print_fields validate_host_fields create_files others)
  moreover have "has_key ''foo'' mixed_keys"
    by (simp add: has_key_def mixed_keys_def)
  ultimately show ?thesis
    by (simp add: raises run passes_def warnings_def)
qed

end
